theory Spec2Isabelle
  imports
    Main
    "HOL-Library.Product_Lexorder"
    "HOL-Library.List_Lexorder"
    "HOL-Library.Char_ord"
begin

section \<open>The edge store of \<^verbatim>\<open>edgestore.py\<close>\<close>

text \<open>
  The engine keeps its data in four SQL tables and talks to them through a driver object
  (\<^verbatim>\<open>self._db\<close>). The SQL statements are class attributes of \<^verbatim>\<open>EdgeStoreShard\<close>; each is
  modelled as a function on the state of the database connection. Python integers are
  unbounded, so every number is an \<open>int\<close>. An exception is a value of type \<open>error\<close>.
  Names are those of the source without a leading underscore; a method that the store and
  the shard both have carries its class in front.
\<close>

datatype error =
    AssertionError string
  | NameError string
  | AttributeError string
  | IntegrityError
  | KeyError
  | IndexError
  | TypeError
  | ZeroDivisionError

subsection \<open>Rows and tables\<close>

text \<open>
  A row of \<^verbatim>\<open>edgedata\<close> is the tuple \<^verbatim>\<open>(edgetype, gid1, gid2, revision, encoding, data)\<close> that
  \<^verbatim>\<open>add\<close> builds; a row of \<^verbatim>\<open>edgeindex\<close> is \<^verbatim>\<open>(indextype, indexvalue, gid1, revision)\<close>.
  The index value is any ordered scalar.
\<close>

type_synonym edge = "int \<times> int \<times> int \<times> int \<times> int \<times> string"

type_synonym 'v index_row = "int \<times> 'v \<times> int \<times> int"

fun edge_key :: "edge \<Rightarrow> int \<times> int \<times> int" where
  "edge_key (edgetype, gid1, gid2, revision, encoding, dat) = (edgetype, gid1, gid2)"

fun edge_edgetype :: "edge \<Rightarrow> int" where
  "edge_edgetype (edgetype, gid1, gid2, revision, encoding, dat) = edgetype"

fun edge_gid1 :: "edge \<Rightarrow> int" where
  "edge_gid1 (edgetype, gid1, gid2, revision, encoding, dat) = gid1"

fun edge_revision :: "edge \<Rightarrow> int" where
  "edge_revision (edgetype, gid1, gid2, revision, encoding, dat) = revision"

fun index_type :: "'v index_row \<Rightarrow> int" where
  "index_type (indextype, indexvalue, gid1, revision) = indextype"

fun index_value :: "'v index_row \<Rightarrow> 'v" where
  "index_value (indextype, indexvalue, gid1, revision) = indexvalue"

fun index_gid1 :: "'v index_row \<Rightarrow> int" where
  "index_gid1 (indextype, indexvalue, gid1, revision) = gid1"

fun index_revision :: "'v index_row \<Rightarrow> int" where
  "index_revision (indextype, indexvalue, gid1, revision) = revision"

text \<open>
  The state of one database connection: the four tables, the last-insert-id register, the
  affected-rows counter of the last statement and the depth of open transaction scopes.
  \<^verbatim>\<open>edgemeta\<close> maps its primary key \<^verbatim>\<open>(edgetype, gid1)\<close> to \<^verbatim>\<open>(revision, count)\<close>; \<^verbatim>\<open>colo\<close>
  maps a colocation to its counter.
\<close>

record 'v database =
  t_edgedata :: "edge list"
  t_edgemeta :: "int \<times> int \<rightharpoonup> int \<times> int"
  t_edgeindex :: "'v index_row list"
  t_colo :: "int \<rightharpoonup> int"
  last_insert_id :: int
  affected_rows :: int
  ongoing :: nat

definition empty_database :: "'v database" where
  "empty_database =
     \<lparr>t_edgedata = [], t_edgemeta = Map.empty, t_edgeindex = [], t_colo = Map.empty,
      last_insert_id = 0, affected_rows = 0, ongoing = 0\<rparr>"

subsection \<open>The driver\<close>

text \<open>
  Modelled from the spec: the driver class \<^verbatim>\<open>DB\<close> of \<^verbatim>\<open>lib.edgestore.db\<close> is not among the
  sources. \<^verbatim>\<open>getAffectedRows\<close> returns the rows changed by the last statement, with an
  upsert reporting 1 for an insert and 2 for an update; \<^verbatim>\<open>getLastInsertID\<close> reads the
  register that a statement sets with \<^verbatim>\<open>LAST_INSERT_ID(expr)\<close>.
\<close>

definition getAffectedRows :: "'v database \<Rightarrow> int" where
  "getAffectedRows d = affected_rows d"

definition getLastInsertID :: "'v database \<Rightarrow> int" where
  "getLastInsertID d = last_insert_id d"

definition hasOngoingTransaction :: "'v database \<Rightarrow> bool" where
  "hasOngoingTransaction d = (0 < ongoing d)"

text \<open>
  Modelled from the spec: \<^verbatim>\<open>transaction()\<close> is a scoped begin, with commit when the scope
  is left normally and rollback when it is left by an exception. A rollback restores the
  tables to what they were when the scope was entered; the registers of the connection
  are not transactional and keep their values.
\<close>

definition begin_transaction :: "'v database \<Rightarrow> 'v database" where
  "begin_transaction d = d\<lparr>ongoing := Suc (ongoing d)\<rparr>"

definition commit :: "'v database \<Rightarrow> 'v database \<Rightarrow> 'v database" where
  "commit d0 d = d\<lparr>ongoing := ongoing d0\<rparr>"

definition rollback :: "'v database \<Rightarrow> 'v database \<Rightarrow> 'v database" where
  "rollback d0 d =
     d\<lparr>t_edgedata := t_edgedata d0, t_edgemeta := t_edgemeta d0,
       t_edgeindex := t_edgeindex d0, t_colo := t_colo d0, ongoing := ongoing d0\<rparr>"

subsection \<open>The SQL statements\<close>

text \<open>
  \<^verbatim>\<open>_generateGidSQL\<close>: insert \<^verbatim>\<open>(colo, LAST_INSERT_ID(start))\<close>, or on a duplicate key set
  \<^verbatim>\<open>counter = LAST_INSERT_ID(counter + 1)\<close>.
\<close>

definition generateGidSQL :: "int \<Rightarrow> int \<Rightarrow> 'v database \<Rightarrow> 'v database" where
  "generateGidSQL c start d =
     (case t_colo d c of
        None \<Rightarrow>
          d\<lparr>t_colo := (t_colo d)(c \<mapsto> start), last_insert_id := start, affected_rows := 1\<rparr>
      | Some counter \<Rightarrow>
          d\<lparr>t_colo := (t_colo d)(c \<mapsto> counter + 1), last_insert_id := counter + 1,
            affected_rows := 2\<rparr>)"

text \<open>
  \<^verbatim>\<open>_incrementRevisionSQL\<close>: insert \<^verbatim>\<open>(edgetype, gid1, LAST_INSERT_ID(1), 0)\<close>, or on a
  duplicate key set \<^verbatim>\<open>revision = LAST_INSERT_ID(revision + 1)\<close>.
\<close>

definition incrementRevisionSQL :: "int \<Rightarrow> int \<Rightarrow> 'v database \<Rightarrow> 'v database" where
  "incrementRevisionSQL edgetype gid1 d =
     (case t_edgemeta d (edgetype, gid1) of
        None \<Rightarrow>
          d\<lparr>t_edgemeta := (t_edgemeta d)((edgetype, gid1) \<mapsto> (1, 0)),
            last_insert_id := 1, affected_rows := 1\<rparr>
      | Some (revision, cnt) \<Rightarrow>
          d\<lparr>t_edgemeta := (t_edgemeta d)((edgetype, gid1) \<mapsto> (revision + 1, cnt)),
            last_insert_id := revision + 1, affected_rows := 2\<rparr>)"

text \<open>
  \<^verbatim>\<open>_incrementCountSQL\<close>: \<^verbatim>\<open>UPDATE edgemeta SET count = count + inc\<close> on the row of
  \<^verbatim>\<open>(edgetype, gid1)\<close>, if there is one.
\<close>

definition incrementCountSQL :: "int \<Rightarrow> int \<Rightarrow> int \<Rightarrow> 'v database \<Rightarrow> 'v database" where
  "incrementCountSQL inc edgetype gid1 d =
     (case t_edgemeta d (edgetype, gid1) of
        None \<Rightarrow> d\<lparr>affected_rows := 0\<rparr>
      | Some (revision, cnt) \<Rightarrow>
          d\<lparr>t_edgemeta := (t_edgemeta d)((edgetype, gid1) \<mapsto> (revision, cnt + inc)),
            affected_rows := (if inc = 0 then 0 else 1)\<rparr>)"

text \<open>
  \<^verbatim>\<open>_addSQL\<close>: a plain insert of the edge, its revision passed through
  \<^verbatim>\<open>LAST_INSERT_ID\<close>. The primary key is \<^verbatim>\<open>(edgetype, gid1, gid2)\<close>; a second row with the
  same key is refused by the database.
\<close>

definition addSQL :: "edge \<Rightarrow> 'v database \<Rightarrow> error + 'v database" where
  "addSQL edgedata d =
     (if \<exists>row \<in> set (t_edgedata d). edge_key row = edge_key edgedata then Inl IntegrityError
      else Inr (d\<lparr>t_edgedata := t_edgedata d @ [edgedata],
                  last_insert_id := edge_revision edgedata, affected_rows := 1\<rparr>))"

text \<open>
  \<^verbatim>\<open>_addOverwriteSQL\<close>: the same insert, and on a duplicate key the update
  \<^verbatim>\<open>revision = LAST_INSERT_ID(revision), revision = VALUES(revision), encoding = ...,
  data = ...\<close>. The assignments run from left to right, so the register receives the
  revision the row had before the statement. An update that changes the row counts 2
  affected rows, one that leaves it as it was counts 0.
\<close>

definition addOverwriteSQL :: "edge \<Rightarrow> 'v database \<Rightarrow> error + 'v database" where
  "addOverwriteSQL edgedata d =
     (case find (\<lambda>row. edge_key row = edge_key edgedata) (t_edgedata d) of
        None \<Rightarrow>
          Inr (d\<lparr>t_edgedata := t_edgedata d @ [edgedata],
                 last_insert_id := edge_revision edgedata, affected_rows := 1\<rparr>)
      | Some old \<Rightarrow>
          Inr (d\<lparr>t_edgedata :=
                   map (\<lambda>row. if edge_key row = edge_key edgedata then edgedata else row)
                     (t_edgedata d),
                 last_insert_id := edge_revision old,
                 affected_rows := (if old = edgedata then 0 else 2)\<rparr>))"

text \<open>\<^verbatim>\<open>_uniqueIndexSQL\<close>: the number of index rows at \<^verbatim>\<open>(indextype, indexvalue)\<close>.\<close>

definition uniqueIndexSQL :: "int \<Rightarrow> 'v \<Rightarrow> 'v database \<Rightarrow> int" where
  "uniqueIndexSQL indextype indexvalue d =
     int (length (filter (\<lambda>row. index_type row = indextype \<and> index_value row = indexvalue)
       (t_edgeindex d)))"

text \<open>\<^verbatim>\<open>_deleteIndexSQL\<close>: delete the index rows at \<^verbatim>\<open>(indextype, gid1, revision)\<close>.\<close>

definition deleteIndexSQL :: "int \<Rightarrow> int \<Rightarrow> int \<Rightarrow> 'v database \<Rightarrow> 'v database" where
  "deleteIndexSQL indextype gid1 revision d =
     d\<lparr>t_edgeindex :=
         filter (\<lambda>row. \<not> (index_type row = indextype \<and> index_gid1 row = gid1
                          \<and> index_revision row = revision)) (t_edgeindex d),
       affected_rows :=
         int (length (filter (\<lambda>row. index_type row = indextype \<and> index_gid1 row = gid1
                          \<and> index_revision row = revision) (t_edgeindex d)))\<rparr>"

text \<open>\<^verbatim>\<open>_addIndexSQL\<close>: insert one index row.\<close>

definition addIndexSQL :: "'v index_row \<Rightarrow> 'v database \<Rightarrow> 'v database" where
  "addIndexSQL row d = d\<lparr>t_edgeindex := t_edgeindex d @ [row], affected_rows := 1\<rparr>"

text \<open>
  \<^verbatim>\<open>_deleteSQL\<close>: delete the edge with the given primary key; the condition
  \<^verbatim>\<open>revision = LAST_INSERT_ID(revision)\<close> holds of every row it is evaluated on and leaves
  that row's revision in the register.
\<close>

definition deleteSQL :: "int \<Rightarrow> int \<Rightarrow> int \<Rightarrow> 'v database \<Rightarrow> 'v database" where
  "deleteSQL edgetype gid1 gid2 d =
     (let hit = filter (\<lambda>row. edge_key row = (edgetype, gid1, gid2)) (t_edgedata d) in
      d\<lparr>t_edgedata := filter (\<lambda>row. edge_key row \<noteq> (edgetype, gid1, gid2)) (t_edgedata d),
        last_insert_id := (case rev hit of [] \<Rightarrow> last_insert_id d | row # _ \<Rightarrow> edge_revision row),
        affected_rows := int (length hit)\<rparr>)"

text \<open>\<^verbatim>\<open>_lastInsertIDSQL\<close>: \<^verbatim>\<open>SELECT LAST_INSERT_ID()\<close>.\<close>

definition lastInsertIDSQL :: "'v database \<Rightarrow> int" where
  "lastInsertIDSQL d = last_insert_id d"

text \<open>\<^verbatim>\<open>_countSQL\<close>: the count column of the \<^verbatim>\<open>edgemeta\<close> row, if there is one.\<close>

definition countSQL :: "int \<Rightarrow> int \<Rightarrow> 'v database \<Rightarrow> int option" where
  "countSQL edgetype gid1 d =
     (case t_edgemeta d (edgetype, gid1) of None \<Rightarrow> None | Some (revision, cnt) \<Rightarrow> Some cnt)"

text \<open>\<^verbatim>\<open>_listSQL\<close>: the edges under \<^verbatim>\<open>(edgetype, gid1)\<close>, by descending revision.\<close>

definition listSQL :: "int \<Rightarrow> int \<Rightarrow> 'v database \<Rightarrow> edge list" where
  "listSQL edgetype gid1 d =
     sort_key (\<lambda>row. - edge_revision row)
       (filter (\<lambda>row. edge_edgetype row = edgetype \<and> edge_gid1 row = gid1) (t_edgedata d))"

text \<open>
  \<^verbatim>\<open>_listIndexSQL\<close>: \<^verbatim>\<open>edgeindex STRAIGHT_JOIN edgedata ON (edgedata.edgetype = %s AND
  edgedata.gid1 = %s AND edgedata.revision = edgeindex.revision) WHERE edgeindex.indextype
  = %s AND edgeindex.indexvalue BETWEEN %s AND %s ORDER BY edgeindex.indexvalue,
  edgeindex.revision DESC\<close>. The join condition compares revisions only; it does not
  mention \<^verbatim>\<open>edgeindex.gid1\<close>.
\<close>

definition listIndexSQL ::
  "int \<Rightarrow> int \<Rightarrow> int \<Rightarrow> 'v::linorder \<Rightarrow> 'v \<Rightarrow> 'v database \<Rightarrow> edge list" where
  "listIndexSQL edgetype gid1 indextype indexstart indexend d =
     map snd (sort_key (\<lambda>(i, row). (index_value i, - index_revision i))
       [(i, row).
          i \<leftarrow> t_edgeindex d,
          index_type i = indextype \<and> indexstart \<le> index_value i \<and> index_value i \<le> indexend,
          row \<leftarrow> t_edgedata d,
          edge_edgetype row = edgetype \<and> edge_gid1 row = gid1
            \<and> edge_revision row = index_revision i])"

text \<open>
  \<^verbatim>\<open>_searchIndexSQL\<close>: the same join across all parents, \<^verbatim>\<open>ON (edgedata.edgetype = %s AND
  edgedata.gid1 = edgeindex.gid1 AND edgedata.revision = edgeindex.revision)\<close>. The index
  type may be \<^verbatim>\<open>None\<close>, which SQL compares equal to nothing.
\<close>

definition searchIndexSQL ::
  "int \<Rightarrow> int option \<Rightarrow> 'v::linorder \<Rightarrow> 'v \<Rightarrow> 'v database \<Rightarrow> edge list" where
  "searchIndexSQL edgetype indextype indexstart indexend d =
     map snd (sort_key (\<lambda>(i, row). (index_value i, - index_revision i))
       [(i, row).
          i \<leftarrow> t_edgeindex d,
          Some (index_type i) = indextype \<and> indexstart \<le> index_value i
            \<and> index_value i \<le> indexend,
          row \<leftarrow> t_edgedata d,
          edge_edgetype row = edgetype \<and> edge_gid1 row = index_gid1 i
            \<and> edge_revision row = index_revision i])"

text \<open>\<^verbatim>\<open>_getSQL\<close> and \<^verbatim>\<open>_getIndexSQL\<close>: the rows of one primary key.\<close>

definition getSQL :: "int \<Rightarrow> int \<Rightarrow> int \<Rightarrow> 'v database \<Rightarrow> edge list" where
  "getSQL edgetype gid1 gid2 d =
     filter (\<lambda>row. edge_key row = (edgetype, gid1, gid2)) (t_edgedata d)"

definition getIndexSQL ::
  "int \<Rightarrow> int \<Rightarrow> int \<Rightarrow> int \<Rightarrow> 'v::linorder \<Rightarrow> 'v \<Rightarrow> 'v database \<Rightarrow> edge list" where
  "getIndexSQL edgetype gid1 gid2 indextype indexstart indexend d =
     [row.
        i \<leftarrow> t_edgeindex d,
        index_type i = indextype \<and> indexstart \<le> index_value i \<and> index_value i \<le> indexend,
        row \<leftarrow> t_edgedata d,
        edge_key row = (edgetype, gid1, gid2) \<and> edge_revision row = index_revision i]"

text \<open>Modelled from the spec: \<^verbatim>\<open>getOne\<close> returns one row or nothing.\<close>

definition getOne :: "'a list \<Rightarrow> 'a option" where
  "getOne rows = (case rows of [] \<Rightarrow> None | row # _ \<Rightarrow> Some row)"

subsection \<open>The shard\<close>

text \<open>
  An \<^verbatim>\<open>EdgeStoreShard\<close> holds its connection and the flag \<^verbatim>\<open>lastAddWasOverwrite\<close>. The
  connection is held together with the state of the database behind it.
\<close>

record 'v EdgeStoreShard =
  db :: "'v database"
  lastAddWasOverwrite :: bool

definition EdgeStoreShard_init :: "'v database \<Rightarrow> 'v EdgeStoreShard" where
  "EdgeStoreShard_init d = \<lparr>db = d, lastAddWasOverwrite = False\<rparr>"

definition transaction ::
  "('v EdgeStoreShard \<Rightarrow> (error + 'a) \<times> 'v EdgeStoreShard)
     \<Rightarrow> 'v EdgeStoreShard \<Rightarrow> (error + 'a) \<times> 'v EdgeStoreShard" where
  "transaction body sh =
     (case body (sh\<lparr>db := begin_transaction (db sh)\<rparr>) of
        (Inl e, sh') \<Rightarrow> (Inl e, sh'\<lparr>db := rollback (db sh) (db sh')\<rparr>)
      | (Inr v, sh') \<Rightarrow> (Inr v, sh'\<lparr>db := commit (db sh) (db sh')\<rparr>))"

text \<open>\<^verbatim>\<open>_incrementRevision\<close>: run the upsert and return the register.\<close>

definition incrementRevision :: "int \<Rightarrow> int \<Rightarrow> 'v database \<Rightarrow> int \<times> 'v database" where
  "incrementRevision edgetype gid1 d =
     (let d' = incrementRevisionSQL edgetype gid1 d in (getLastInsertID d', d'))"

text \<open>\<^verbatim>\<open>_incrementCount\<close>.\<close>

definition incrementCount :: "int \<Rightarrow> int \<Rightarrow> int \<Rightarrow> 'v database \<Rightarrow> 'v database" where
  "incrementCount edgetype gid1 inc d = incrementCountSQL inc edgetype gid1 d"

text \<open>
  The loop of \<^verbatim>\<open>add\<close> over \<^verbatim>\<open>indices\<close>. On the update path the index rows of the previous
  revision are deleted first; a unique entry is then checked, and the new row inserted.
  The result is the exception raised, if any, and the database where the loop stopped.

  Modelled from the spec: what the driver's \<^verbatim>\<open>run\<close> returns is not in the sources; for the
  \<^verbatim>\<open>SELECT COUNT(1)\<close> of the uniqueness check it is taken to be the count, which the
  assertion requires to be zero.
\<close>

fun add_indices ::
  "int \<Rightarrow> int \<Rightarrow> int \<Rightarrow> int \<Rightarrow> (int \<times> 'v \<times> bool) list \<Rightarrow> 'v database
     \<Rightarrow> error option \<times> 'v database" where
  "add_indices affected gid1 prev_revision revision [] d = (None, d)"
| "add_indices affected gid1 prev_revision revision
     ((indextype, indexvalue, unique) # indices) d =
     (let d1 = (if affected = 2 then deleteIndexSQL indextype gid1 prev_revision d else d)
      in if unique \<and> uniqueIndexSQL indextype indexvalue d1 \<noteq> 0
         then (Some (AssertionError ''edge violates index uniqueness''), d1)
         else add_indices affected gid1 prev_revision revision indices
                (addIndexSQL (indextype, indexvalue, gid1, revision) d1))"

text \<open>The body of \<^verbatim>\<open>add\<close>, inside its transaction.\<close>

definition add_body ::
  "int \<Rightarrow> int \<Rightarrow> int \<Rightarrow> int \<Rightarrow> string \<Rightarrow> (int \<times> 'v \<times> bool) list \<Rightarrow> bool
     \<Rightarrow> 'v EdgeStoreShard \<Rightarrow> (error + edge) \<times> 'v EdgeStoreShard" where
  "add_body edgetype gid1 gid2 encoding dat indices overwrite sh =
     (let (revision, d1) = incrementRevision edgetype gid1 (db sh);
          edgedata = (edgetype, gid1, gid2, revision, encoding, dat)
      in case (if overwrite then addOverwriteSQL edgedata d1 else addSQL edgedata d1) of
           Inl e \<Rightarrow> (Inl e, sh\<lparr>db := d1\<rparr>)
         | Inr d2 \<Rightarrow>
             (let affected = getAffectedRows d2;
                  prev_revision = getLastInsertID d2;
                  d3 = (if affected = 1 then incrementCount edgetype gid1 1 d2 else d2);
                  sh3 = (if affected = 1 then sh\<lparr>db := d3\<rparr>
                         else if affected = 2 then sh\<lparr>db := d3, lastAddWasOverwrite := True\<rparr>
                         else sh\<lparr>db := d3\<rparr>)
              in if affected = 1 \<and> prev_revision \<noteq> revision
                 then (Inl (AssertionError ''added edge should not have a previous revision''),
                       sh3)
                 else if affected = 2 \<and> prev_revision \<noteq> revision - 1
                 then (Inl (AssertionError ''data changed during update''), sh3)
                 else (case add_indices affected gid1 prev_revision revision indices d3 of
                         (Some e, d4) \<Rightarrow> (Inl e, sh3\<lparr>db := d4\<rparr>)
                       | (None, d4) \<Rightarrow> (Inr edgedata, sh3\<lparr>db := d4\<rparr>))))"

definition EdgeStoreShard_add ::
  "int \<Rightarrow> int \<Rightarrow> int \<Rightarrow> int \<Rightarrow> string \<Rightarrow> (int \<times> 'v \<times> bool) list \<Rightarrow> bool
     \<Rightarrow> 'v EdgeStoreShard \<Rightarrow> (error + edge) \<times> 'v EdgeStoreShard" where
  "EdgeStoreShard_add edgetype gid1 gid2 encoding dat indices overwrite sh =
     transaction (add_body edgetype gid1 gid2 encoding dat indices overwrite) sh"

text \<open>\<^verbatim>\<open>delete\<close>.\<close>

definition delete_body ::
  "int \<Rightarrow> int \<Rightarrow> int \<Rightarrow> int list \<Rightarrow> 'v EdgeStoreShard \<Rightarrow> (error + bool) \<times> 'v EdgeStoreShard" where
  "delete_body edgetype gid1 gid2 indextypes sh =
     (let (revision, d1) = incrementRevision edgetype gid1 (db sh);
          d2 = deleteSQL edgetype gid1 gid2 d1;
          affected = getAffectedRows d2;
          del_revision = lastInsertIDSQL d2
      in if affected \<noteq> 0
         then (let d3 = incrementCount edgetype gid1 (- 1) d2
               in if del_revision = 0
                  then (Inl (AssertionError ''missing revision for deleted edge''), sh\<lparr>db := d3\<rparr>)
                  else (Inr (affected = 1),
                        sh\<lparr>db := fold (\<lambda>indextype. deleteIndexSQL indextype gid1 del_revision)
                                   indextypes d3\<rparr>))
         else (Inr (affected = 1), sh\<lparr>db := d2\<rparr>))"

definition EdgeStoreShard_delete ::
  "int \<Rightarrow> int \<Rightarrow> int \<Rightarrow> int list \<Rightarrow> 'v EdgeStoreShard \<Rightarrow> (error + bool) \<times> 'v EdgeStoreShard" where
  "EdgeStoreShard_delete edgetype gid1 gid2 indextypes sh =
     transaction (delete_body edgetype gid1 gid2 indextypes) sh"

text \<open>
  \<^verbatim>\<open>query\<close>. \<^verbatim>\<open>gid1\<close> and \<^verbatim>\<open>indextype\<close> are tested for truth, so \<^verbatim>\<open>None\<close> and \<open>0\<close> both count
  as unset; unpacking an \<^verbatim>\<open>indexrange\<close> that is \<^verbatim>\<open>None\<close> raises.
\<close>

definition truthy :: "int option \<Rightarrow> bool" where
  "truthy x = (case x of None \<Rightarrow> False | Some n \<Rightarrow> n \<noteq> 0)"

definition EdgeStoreShard_query ::
  "int \<Rightarrow> int option \<Rightarrow> ('v::linorder \<times> 'v) option \<Rightarrow> int option \<Rightarrow> 'v EdgeStoreShard
     \<Rightarrow> error + edge list" where
  "EdgeStoreShard_query edge_type indextype indexrange gid1 sh =
     (case (gid1, indextype) of
        (Some g, Some it) \<Rightarrow>
          if g \<noteq> 0 \<and> it \<noteq> 0
          then (case indexrange of
                  None \<Rightarrow> Inl TypeError
                | Some (indexstart, indexend) \<Rightarrow>
                    Inr (listIndexSQL edge_type g it indexstart indexend (db sh)))
          else if g \<noteq> 0 then Inr (listSQL edge_type g (db sh))
          else (case indexrange of
                  None \<Rightarrow> Inl TypeError
                | Some (indexstart, indexend) \<Rightarrow>
                    Inr (searchIndexSQL edge_type indextype indexstart indexend (db sh)))
      | (Some g, None) \<Rightarrow>
          if g \<noteq> 0 then Inr (listSQL edge_type g (db sh))
          else (case indexrange of
                  None \<Rightarrow> Inl TypeError
                | Some (indexstart, indexend) \<Rightarrow>
                    Inr (searchIndexSQL edge_type indextype indexstart indexend (db sh)))
      | (None, _) \<Rightarrow>
          (case indexrange of
             None \<Rightarrow> Inl TypeError
           | Some (indexstart, indexend) \<Rightarrow>
               Inr (searchIndexSQL edge_type indextype indexstart indexend (db sh))))"

text \<open>\<^verbatim>\<open>get\<close> and \<^verbatim>\<open>count\<close>.\<close>

definition EdgeStoreShard_get ::
  "int \<Rightarrow> int \<Rightarrow> int \<Rightarrow> int option \<Rightarrow> ('v::linorder \<times> 'v) option \<Rightarrow> 'v EdgeStoreShard
     \<Rightarrow> error + edge option" where
  "EdgeStoreShard_get edge_type gid1 gid2 indextype indexrange sh =
     (case indextype of
        Some it \<Rightarrow>
          if it \<noteq> 0
          then (case indexrange of
                  None \<Rightarrow> Inl TypeError
                | Some (indexstart, indexend) \<Rightarrow>
                    Inr (getOne (getIndexSQL edge_type gid1 gid2 it indexstart indexend (db sh))))
          else Inr (getOne (getSQL edge_type gid1 gid2 (db sh)))
      | None \<Rightarrow> Inr (getOne (getSQL edge_type gid1 gid2 (db sh))))"

definition EdgeStoreShard_count :: "int \<Rightarrow> int \<Rightarrow> 'v EdgeStoreShard \<Rightarrow> int" where
  "EdgeStoreShard_count edgetype gid1 sh =
     (case countSQL edgetype gid1 (db sh) of None \<Rightarrow> 0 | Some cnt \<Rightarrow> cnt)"

subsection \<open>Names resolved at run time\<close>

text \<open>
  Python resolves a free name of a method in the globals of the module, and an attribute
  \<^verbatim>\<open>self.x\<close> in the dictionaries of the instance and of its class, when the line runs; a
  name bound in neither raises \<^verbatim>\<open>NameError\<close> or \<^verbatim>\<open>AttributeError\<close>. The model keeps both
  dictionaries as data. A global is bound to \<^verbatim>\<open>None\<close>, an integer, a pair of index values,
  an SQL statement with two parameters, or a module offering \<^verbatim>\<open>randrange\<close> (a draw is a
  function of the bounds).
\<close>

datatype 'v pyval =
    PyNone
  | PyInt int
  | PyRange 'v 'v
  | PyStatement "int \<Rightarrow> int \<Rightarrow> 'v database \<Rightarrow> 'v database"
  | PyRandom "int \<Rightarrow> int \<Rightarrow> int"

record 'v env =
  DATABASE_HOSTS :: "string list"
  EdgeStore_dict :: "string \<rightharpoonup> int"
  module_globals :: "string \<rightharpoonup> 'v pyval"

text \<open>
  The environment the source sets up. \<^verbatim>\<open>DATABASE_HOSTS\<close> comes from the configuration. The
  class body of \<^verbatim>\<open>EdgeStore\<close> binds the integers \<^verbatim>\<open>_MAX_COLO_ID = (1 << 32) - 1\<close> and
  \<^verbatim>\<open>_NUM_HOSTS = len(DATABASE_HOSTS)\<close>. The module binds \<^verbatim>\<open>chain\<close>, \<^verbatim>\<open>DB\<close>,
  \<^verbatim>\<open>DATABASE_HOSTS\<close>, \<^verbatim>\<open>contextmanager\<close>, \<^verbatim>\<open>EdgeStore\<close> and \<^verbatim>\<open>EdgeStoreShard\<close>, and none of
  the free names its methods look up (\<^verbatim>\<open>random\<close>, \<^verbatim>\<open>indextype\<close>, \<^verbatim>\<open>indexrange\<close>,
  \<^verbatim>\<open>_generateGidSQL\<close>).
\<close>

definition source_env :: "string list \<Rightarrow> 'v env" where
  "source_env hosts =
     \<lparr>DATABASE_HOSTS = hosts,
      EdgeStore_dict = [''_MAX_COLO_ID'' \<mapsto> 2 ^ 32 - 1, ''_NUM_HOSTS'' \<mapsto> int (length hosts)],
      module_globals = Map.empty\<rparr>"

definition getattr :: "'v env \<Rightarrow> string \<Rightarrow> error + int" where
  "getattr env name =
     (case EdgeStore_dict env name of None \<Rightarrow> Inl (AttributeError name) | Some v \<Rightarrow> Inr v)"

definition global_name :: "'v env \<Rightarrow> string \<Rightarrow> error + 'v pyval" where
  "global_name env name =
     (case module_globals env name of None \<Rightarrow> Inl (NameError name) | Some v \<Rightarrow> Inr v)"

text \<open>The globals \<^verbatim>\<open>indextype\<close> and \<^verbatim>\<open>indexrange\<close> as the parameters the shard expects.\<close>

definition global_indextype :: "'v env \<Rightarrow> error + int option" where
  "global_indextype env =
     (case global_name env ''indextype'' of
        Inl e \<Rightarrow> Inl e
      | Inr PyNone \<Rightarrow> Inr None
      | Inr (PyInt i) \<Rightarrow> Inr (Some i)
      | Inr _ \<Rightarrow> Inl TypeError)"

definition global_indexrange :: "'v env \<Rightarrow> error + ('v \<times> 'v) option" where
  "global_indexrange env =
     (case global_name env ''indexrange'' of
        Inl e \<Rightarrow> Inl e
      | Inr PyNone \<Rightarrow> Inr None
      | Inr (PyRange indexstart indexend) \<Rightarrow> Inr (Some (indexstart, indexend))
      | Inr _ \<Rightarrow> Inl TypeError)"

text \<open>Indexing a Python list: a negative index counts from the end.\<close>

definition py_index :: "'a list \<Rightarrow> int \<Rightarrow> error + 'a" where
  "py_index xs i =
     (if 0 \<le> i \<and> i < int (length xs) then Inr (xs ! nat i)
      else if - int (length xs) \<le> i \<and> i < 0 then Inr (xs ! nat (int (length xs) + i))
      else Inl IndexError)"

subsection \<open>The shard's id generation and lock probe\<close>

text \<open>
  \<^verbatim>\<open>generateGid\<close> passes the free name \<^verbatim>\<open>_generateGidSQL\<close> to the driver (every other method
  writes \<^verbatim>\<open>EdgeStoreShard._...SQL\<close>) and returns \<^verbatim>\<open>(colo << 32) + getLastInsertID()\<close>.
\<close>

definition EdgeStoreShard_generateGid ::
  "'v env \<Rightarrow> int \<Rightarrow> int \<Rightarrow> 'v EdgeStoreShard \<Rightarrow> (error + int) \<times> 'v EdgeStoreShard" where
  "EdgeStoreShard_generateGid env colo start sh =
     (case global_name env ''_generateGidSQL'' of
        Inl e \<Rightarrow> (Inl e, sh)
      | Inr (PyStatement statement) \<Rightarrow>
          (let d = statement colo start (db sh)
           in (Inr (push_bit 32 colo + getLastInsertID d), sh\<lparr>db := d\<rparr>))
      | Inr _ \<Rightarrow> (Inl TypeError, sh))"

definition EdgeStoreShard_lock ::
  "'v env \<Rightarrow> int \<Rightarrow> 'v EdgeStoreShard \<Rightarrow> (error + int) \<times> 'v EdgeStoreShard" where
  "EdgeStoreShard_lock env colo sh =
     (if hasOngoingTransaction (db sh) then EdgeStoreShard_generateGid env colo 0 sh
      else (Inl (AssertionError []), sh))"

subsection \<open>The store\<close>

text \<open>
  An \<^verbatim>\<open>EdgeStore\<close> has \<^verbatim>\<open>_dbname\<close>, the dictionary \<^verbatim>\<open>_shards\<close> from connection to shard, the set
  \<^verbatim>\<open>_locked_colos\<close> and its own \<^verbatim>\<open>lastAddWasOverwrite\<close>. Modelled from the spec:
  \<^verbatim>\<open>DB.getInstance(host, dbname)\<close> is a connection singleton per \<^verbatim>\<open>(host, dbname)\<close>, so a
  connection is named by that pair; \<open>connections\<close> gives the database behind each
  connection that no shard wraps yet.
\<close>

type_synonym handle = "string \<times> string"

record 'v EdgeStore =
  dbname :: string
  shards :: "handle \<rightharpoonup> 'v EdgeStoreShard"
  locked_colos :: "int set"
  lastAddWasOverwrite :: bool
  connections :: "handle \<Rightarrow> 'v database"

definition EdgeStore_init :: "(handle \<Rightarrow> 'v database) \<Rightarrow> string \<Rightarrow> 'v EdgeStore" where
  "EdgeStore_init conns name =
     \<lparr>dbname = name, shards = Map.empty, locked_colos = {}, lastAddWasOverwrite = False,
      connections = conns\<rparr>"

text \<open>
  \<^verbatim>\<open>getInstance\<close> looks the name up in the class dictionary \<^verbatim>\<open>_instances\<close> and constructs
  an \<^verbatim>\<open>EdgeStore\<close> when there is none. Objects live in a heap and are told apart by
  their position in it.
\<close>

record 'v classes =
  EdgeStore_instances :: "string \<rightharpoonup> nat"
  heap :: "'v EdgeStore list"

definition classes_init :: "'v classes" where
  "classes_init = \<lparr>EdgeStore_instances = Map.empty, heap = []\<rparr>"

definition getInstance ::
  "(handle \<Rightarrow> 'v database) \<Rightarrow> string \<Rightarrow> 'v classes \<Rightarrow> nat \<times> 'v classes" where
  "getInstance conns name p =
     (case EdgeStore_instances p name of
        Some instance \<Rightarrow> (instance, p)
      | None \<Rightarrow> (length (heap p), p\<lparr>heap := heap p @ [EdgeStore_init conns name]\<rparr>))"

text \<open>\<^verbatim>\<open>colo\<close>: \<^verbatim>\<open>gid >> 32\<close>.\<close>

definition EdgeStore_colo :: "int \<Rightarrow> int" where
  "EdgeStore_colo gid = drop_bit 32 gid"

text \<open>
  \<^verbatim>\<open>_getHostShard\<close> returns the shard cached for the connection, constructing it first if
  need be; the result names the shard by its connection. \<^verbatim>\<open>_getColoShard\<close> reads
  \<^verbatim>\<open>self.NUM_HOSTS\<close>.
\<close>

definition getHostShard ::
  "'v env \<Rightarrow> int \<Rightarrow> 'v EdgeStore \<Rightarrow> (error + handle \<times> 'v EdgeStoreShard) \<times> 'v EdgeStore" where
  "getHostShard env hostindex st =
     (case py_index (DATABASE_HOSTS env) hostindex of
        Inl e \<Rightarrow> (Inl e, st)
      | Inr host \<Rightarrow>
          (case shards st (host, dbname st) of
             Some shard \<Rightarrow> (Inr ((host, dbname st), shard), st)
           | None \<Rightarrow>
               (let shard = EdgeStoreShard_init (connections st (host, dbname st))
                in (Inr ((host, dbname st), shard),
                    st\<lparr>shards := (shards st)((host, dbname st) \<mapsto> shard)\<rparr>))))"

definition getColoShard ::
  "'v env \<Rightarrow> int \<Rightarrow> 'v EdgeStore \<Rightarrow> (error + handle \<times> 'v EdgeStoreShard) \<times> 'v EdgeStore" where
  "getColoShard env colo st =
     (case getattr env ''NUM_HOSTS'' of
        Inl e \<Rightarrow> (Inl e, st)
      | Inr n \<Rightarrow>
          if n = 0 then (Inl ZeroDivisionError, st) else getHostShard env (colo mod n) st)"

definition getShard ::
  "'v env \<Rightarrow> int \<Rightarrow> 'v EdgeStore \<Rightarrow> (error + handle \<times> 'v EdgeStoreShard) \<times> 'v EdgeStore" where
  "getShard env gid st = getColoShard env (EdgeStore_colo gid) st"

definition put_shard :: "handle \<Rightarrow> 'v EdgeStoreShard \<Rightarrow> 'v EdgeStore \<Rightarrow> 'v EdgeStore" where
  "put_shard h shard st = st\<lparr>shards := (shards st)(h \<mapsto> shard)\<rparr>"

text \<open>
  \<^verbatim>\<open>generateGid\<close>: \<^verbatim>\<open>colo or (colo_gid and self.colo(colo_gid)) or random.randrange(1,
  self._MAX_COLO_ID + 1)\<close>, then the shard of that colocation.
\<close>

definition random_colo :: "'v env \<Rightarrow> error + int" where
  "random_colo env =
     (case global_name env ''random'' of
        Inl e \<Rightarrow> Inl e
      | Inr (PyRandom randrange) \<Rightarrow>
          (case getattr env ''_MAX_COLO_ID'' of
             Inl e \<Rightarrow> Inl e
           | Inr m \<Rightarrow> Inr (randrange 1 (m + 1)))
      | Inr _ \<Rightarrow> Inl (AttributeError ''randrange''))"

definition choose_colo :: "'v env \<Rightarrow> int option \<Rightarrow> int option \<Rightarrow> error + int" where
  "choose_colo env colo_gid colo =
     (case (if truthy colo then colo
            else if truthy colo_gid then map_option EdgeStore_colo colo_gid
            else None) of
        Some c \<Rightarrow> if c \<noteq> 0 then Inr c else random_colo env
      | None \<Rightarrow> random_colo env)"

definition EdgeStore_generateGid ::
  "'v env \<Rightarrow> int option \<Rightarrow> int option \<Rightarrow> 'v EdgeStore \<Rightarrow> (error + int) \<times> 'v EdgeStore" where
  "EdgeStore_generateGid env colo_gid colo st =
     (if truthy colo_gid \<and> truthy colo
      then (Inl (AssertionError ''cannot specify both colo and colo_gid''), st)
      else (case choose_colo env colo_gid colo of
              Inl e \<Rightarrow> (Inl e, st)
            | Inr c \<Rightarrow>
                (case getColoShard env c st of
                   (Inl e, st1) \<Rightarrow> (Inl e, st1)
                 | (Inr (h, shard), st1) \<Rightarrow>
                     (case EdgeStoreShard_generateGid env c 1 shard of
                        (res, shard') \<Rightarrow> (res, put_shard h shard' st1)))))"

text \<open>
  \<^verbatim>\<open>add\<close>, \<^verbatim>\<open>delete\<close>, \<^verbatim>\<open>get\<close> and \<^verbatim>\<open>count\<close> forward to the shard of \<^verbatim>\<open>gid1\<close>. The shard is
  looked up before the arguments of the forwarded call are evaluated. \<^verbatim>\<open>get\<close> and \<^verbatim>\<open>query\<close>
  never read their parameter \<^verbatim>\<open>index\<close>, which the model leaves out; they pass the free names
  \<^verbatim>\<open>indextype\<close> and \<^verbatim>\<open>indexrange\<close> on.
\<close>

definition EdgeStore_add ::
  "'v env \<Rightarrow> int \<Rightarrow> int \<Rightarrow> int \<Rightarrow> int \<Rightarrow> string \<Rightarrow> (int \<times> 'v \<times> bool) list \<Rightarrow> bool
     \<Rightarrow> 'v EdgeStore \<Rightarrow> (error + edge) \<times> 'v EdgeStore" where
  "EdgeStore_add env edgetype gid1 gid2 encoding dat indices overwrite st =
     (case getShard env gid1 st of
        (Inl e, st1) \<Rightarrow> (Inl e, st1)
      | (Inr (h, shard), st1) \<Rightarrow>
          (case EdgeStoreShard_add edgetype gid1 gid2 encoding dat indices overwrite shard of
             (Inl e, shard') \<Rightarrow> (Inl e, put_shard h shard' st1)
           | (Inr edge, shard') \<Rightarrow>
               (Inr edge,
                (put_shard h shard' st1)
                  \<lparr>lastAddWasOverwrite := EdgeStoreShard.lastAddWasOverwrite shard'\<rparr>)))"

definition EdgeStore_delete ::
  "'v env \<Rightarrow> int \<Rightarrow> int \<Rightarrow> int \<Rightarrow> int list \<Rightarrow> 'v EdgeStore \<Rightarrow> (error + bool) \<times> 'v EdgeStore" where
  "EdgeStore_delete env edgetype gid1 gid2 indextypes st =
     (case getShard env gid1 st of
        (Inl e, st1) \<Rightarrow> (Inl e, st1)
      | (Inr (h, shard), st1) \<Rightarrow>
          (case EdgeStoreShard_delete edgetype gid1 gid2 indextypes shard of
             (res, shard') \<Rightarrow> (res, put_shard h shard' st1)))"

definition EdgeStore_get ::
  "'v::linorder env \<Rightarrow> int \<Rightarrow> int \<Rightarrow> int \<Rightarrow> 'v EdgeStore \<Rightarrow> (error + edge option) \<times> 'v EdgeStore" where
  "EdgeStore_get env edgetype gid1 gid2 st =
     (case getShard env gid1 st of
        (Inl e, st1) \<Rightarrow> (Inl e, st1)
      | (Inr (h, shard), st1) \<Rightarrow>
          (case global_indextype env of
             Inl e \<Rightarrow> (Inl e, st1)
           | Inr indextype \<Rightarrow>
               (case global_indexrange env of
                  Inl e \<Rightarrow> (Inl e, st1)
                | Inr indexrange \<Rightarrow>
                    (EdgeStoreShard_get edgetype gid1 gid2 indextype indexrange shard, st1))))"

definition EdgeStore_count ::
  "'v env \<Rightarrow> int \<Rightarrow> int \<Rightarrow> 'v EdgeStore \<Rightarrow> (error + int) \<times> 'v EdgeStore" where
  "EdgeStore_count env edgetype gid1 st =
     (case getShard env gid1 st of
        (Inl e, st1) \<Rightarrow> (Inl e, st1)
      | (Inr (h, shard), st1) \<Rightarrow> (Inr (EdgeStoreShard_count edgetype gid1 shard), st1))"

text \<open>
  \<^verbatim>\<open>query\<close>: with \<^verbatim>\<open>colo\<close> or \<^verbatim>\<open>gid1\<close> the shard of \<^verbatim>\<open>colo or self.colo(gid1)\<close>; otherwise every
  host in \<^verbatim>\<open>range(self._NUM_HOSTS)\<close>, the results chained.
\<close>

fun query_hosts ::
  "'v::linorder env \<Rightarrow> int \<Rightarrow> int list \<Rightarrow> 'v EdgeStore
     \<Rightarrow> (error + edge list list) \<times> 'v EdgeStore" where
  "query_hosts env edgetype [] st = (Inr [], st)"
| "query_hosts env edgetype (hostindex # hostindices) st =
     (case getHostShard env hostindex st of
        (Inl e, st1) \<Rightarrow> (Inl e, st1)
      | (Inr (h, shard), st1) \<Rightarrow>
          (case global_indextype env of
             Inl e \<Rightarrow> (Inl e, st1)
           | Inr indextype \<Rightarrow>
               (case global_indexrange env of
                  Inl e \<Rightarrow> (Inl e, st1)
                | Inr indexrange \<Rightarrow>
                    (case EdgeStoreShard_query edgetype indextype indexrange None shard of
                       Inl e \<Rightarrow> (Inl e, st1)
                     | Inr rows \<Rightarrow>
                         (case query_hosts env edgetype hostindices st1 of
                            (Inl e, st2) \<Rightarrow> (Inl e, st2)
                          | (Inr others, st2) \<Rightarrow> (Inr (rows # others), st2))))))"

definition EdgeStore_query ::
  "'v::linorder env \<Rightarrow> int \<Rightarrow> int option \<Rightarrow> int option \<Rightarrow> 'v EdgeStore
     \<Rightarrow> (error + edge list) \<times> 'v EdgeStore" where
  "EdgeStore_query env edgetype gid1 colo st =
     (if truthy gid1 \<and> truthy colo
      then (Inl (AssertionError ''cannot query with both parent gid and colo''), st)
      else if truthy colo \<or> truthy gid1
      then (case (if truthy colo then colo else map_option EdgeStore_colo gid1) of
              None \<Rightarrow> (Inl TypeError, st)
            | Some c \<Rightarrow>
                (case getColoShard env c st of
                   (Inl e, st1) \<Rightarrow> (Inl e, st1)
                 | (Inr (h, shard), st1) \<Rightarrow>
                     (case global_indextype env of
                        Inl e \<Rightarrow> (Inl e, st1)
                      | Inr indextype \<Rightarrow>
                          (case global_indexrange env of
                             Inl e \<Rightarrow> (Inl e, st1)
                           | Inr indexrange \<Rightarrow>
                               (EdgeStoreShard_query edgetype indextype indexrange gid1 shard,
                                st1)))))
      else (case getattr env ''_NUM_HOSTS'' of
              Inl e \<Rightarrow> (Inl e, st)
            | Inr n \<Rightarrow>
                (case query_hosts env edgetype (map int [0..<nat n]) st of
                   (Inl e, st1) \<Rightarrow> (Inl e, st1)
                 | (Inr results, st1) \<Rightarrow> (Inr (concat results), st1))))"

text \<open>
  \<^verbatim>\<open>lock\<close> is a context manager; \<open>body\<close> is the block of the \<^verbatim>\<open>with\<close> statement, given what
  the manager yields. A nested entry yields nothing and returns. The first entry marks
  the colocation, opens the shard's transaction, yields the lock probe's result, and
  unmarks the colocation in its \<^verbatim>\<open>finally\<close> clause; \<^verbatim>\<open>set.remove\<close> raises \<^verbatim>\<open>KeyError\<close> on a
  missing element.
\<close>

definition on_connection ::
  "handle \<Rightarrow> ('v database \<Rightarrow> 'v database) \<Rightarrow> 'v EdgeStore \<Rightarrow> 'v EdgeStore" where
  "on_connection h f st =
     st\<lparr>shards := (shards st)(h := map_option (\<lambda>shard. shard\<lparr>db := f (db shard)\<rparr>) (shards st h))\<rparr>"

definition EdgeStore_lock ::
  "'v env \<Rightarrow> int \<Rightarrow> (int option \<Rightarrow> 'v EdgeStore \<Rightarrow> (error + 'r) \<times> 'v EdgeStore)
     \<Rightarrow> 'v EdgeStore \<Rightarrow> (error + 'r) \<times> 'v EdgeStore" where
  "EdgeStore_lock env colo body st =
     (if colo \<in> locked_colos st then body None st
      else
        (case
           (case getColoShard env colo (st\<lparr>locked_colos := insert colo (locked_colos st)\<rparr>) of
              (Inl e, st1) \<Rightarrow> (Inl e, st1)
            | (Inr (h, shard), st1) \<Rightarrow>
                (case
                   (case EdgeStoreShard_lock env colo
                           (shard\<lparr>db := begin_transaction (db shard)\<rparr>) of
                      (Inl e, shard') \<Rightarrow> (Inl e, put_shard h shard' st1)
                    | (Inr gid, shard') \<Rightarrow> body (Some gid) (put_shard h shard' st1))
                 of
                   (Inl e, st2) \<Rightarrow> (Inl e, on_connection h (rollback (db shard)) st2)
                 | (Inr v, st2) \<Rightarrow> (Inr v, on_connection h (commit (db shard)) st2)))
         of
           (res, st3) \<Rightarrow>
             if colo \<in> locked_colos st3
             then (res, st3\<lparr>locked_colos := locked_colos st3 - {colo}\<rparr>)
             else (Inl KeyError, st3)))"

subsection \<open>Observations used in the properties\<close>

text \<open>
  The revision stored for \<^verbatim>\<open>(edgetype, gid1)\<close>, 0 while \<^verbatim>\<open>edgemeta\<close> has no row for it, and
  the revisions returned by \<open>n\<close> calls of \<^verbatim>\<open>_incrementRevision\<close> made one after the other.
\<close>

definition stored_revision :: "'v database \<Rightarrow> int \<Rightarrow> int \<Rightarrow> int" where
  "stored_revision d edgetype gid1 =
     (case t_edgemeta d (edgetype, gid1) of None \<Rightarrow> 0 | Some (revision, cnt) \<Rightarrow> revision)"

fun successive_revisions :: "nat \<Rightarrow> int \<Rightarrow> int \<Rightarrow> 'v database \<Rightarrow> int list" where
  "successive_revisions 0 edgetype gid1 d = []"
| "successive_revisions (Suc n) edgetype gid1 d =
     (case incrementRevision edgetype gid1 d of
        (revision, d') \<Rightarrow> revision # successive_revisions n edgetype gid1 d')"

text \<open>
  A database with one edge of type 7 from \<^verbatim>\<open>(5 << 32) | 1\<close> to \<^verbatim>\<open>(5 << 32) | 2\<close>, indexed
  under index type 3 at the value \<^verbatim>\<open>"k"\<close>, after two ids were generated in colocation 5.
\<close>

definition example_database :: "string database" where
  "example_database =
     \<lparr>t_edgedata = [(7, 21474836481, 21474836482, 1, 1, ''x'')],
      t_edgemeta = [(7, 21474836481) \<mapsto> (1, 1)],
      t_edgeindex = [(3, ''k'', 21474836481, 1)],
      t_colo = [5 \<mapsto> 2],
      last_insert_id = 1, affected_rows = 1, ongoing = 0\<rparr>"

text \<open>
  The database after a second edge was added under the same parent.
\<close>

definition two_edges_database :: "string database" where
  "two_edges_database =
     \<lparr>t_edgedata = [(7, 21474836481, 21474836482, 1, 1, ''x''),
                    (7, 21474836481, 21474836483, 2, 1, ''x'')],
      t_edgemeta = [(7, 21474836481) \<mapsto> (2, 2)],
      t_edgeindex = [],
      t_colo = [5 \<mapsto> 3],
      last_insert_id = 2, affected_rows = 1, ongoing = 0\<rparr>"

text \<open>
  A database in which the parent \<^verbatim>\<open>(5 << 32) | 1\<close> has an edge of type 7 without index entry
  and an edge of type 8 indexed under index type 3 at \<^verbatim>\<open>"k"\<close>. Revisions are counted for each
  \<^verbatim>\<open>(edgetype, gid1)\<close>, so both edges carry revision 1.
\<close>

definition two_types_database :: "string database" where
  "two_types_database =
     \<lparr>t_edgedata = [(7, 21474836481, 21474836482, 1, 1, ''e1''),
                    (8, 21474836481, 21474836483, 1, 1, ''e2'')],
      t_edgemeta = [(7, 21474836481) \<mapsto> (1, 1), (8, 21474836481) \<mapsto> (1, 1)],
      t_edgeindex = [(3, ''k'', 21474836481, 1)],
      t_colo = [5 \<mapsto> 3],
      last_insert_id = 1, affected_rows = 1, ongoing = 0\<rparr>"

text \<open>
  For a set \<open>U\<close> of pairs \<^verbatim>\<open>(indextype, indexvalue)\<close>: no pair of \<open>U\<close> has more than one row
  in \<^verbatim>\<open>edgeindex\<close>; and every entry of an \<^verbatim>\<open>indices\<close> list whose pair is in \<open>U\<close> carries the
  unique flag.
\<close>

definition unique_pairs_hold :: "(int \<times> 'v) set \<Rightarrow> 'v index_row list \<Rightarrow> bool" where
  "unique_pairs_hold U rows =
     (\<forall>(indextype, indexvalue) \<in> U.
        length (filter (\<lambda>row. index_type row = indextype \<and> index_value row = indexvalue) rows)
          \<le> 1)"

definition flags_agree :: "(int \<times> 'v) set \<Rightarrow> (int \<times> 'v \<times> bool) list \<Rightarrow> bool" where
  "flags_agree U indices =
     (\<forall>(indextype, indexvalue, unique) \<in> set indices. (indextype, indexvalue) \<in> U \<longrightarrow> unique)"

text \<open>
  A database with two parents in colocation 5: \<^verbatim>\<open>(5 << 32) | 1\<close> has an edge without any index
  entry, \<^verbatim>\<open>(5 << 32) | 2\<close> has an edge indexed under index type 3 at \<^verbatim>\<open>"k"\<close>. Both edges carry
  revision 1, the first of their parent.
\<close>

definition cross_parent_database :: "string database" where
  "cross_parent_database =
     \<lparr>t_edgedata = [(7, 21474836481, 21474836483, 1, 1, ''p''),
                    (7, 21474836482, 21474836484, 1, 1, ''q'')],
      t_edgemeta = [(7, 21474836481) \<mapsto> (1, 1), (7, 21474836482) \<mapsto> (1, 1)],
      t_edgeindex = [(3, ''k'', 21474836482, 1)],
      t_colo = [5 \<mapsto> 4],
      last_insert_id = 1, affected_rows = 1, ongoing = 0\<rparr>"

text \<open>
  An environment in which the two names the source leaves unbound are bound to what the
  class bodies define under neighbouring names: \<^verbatim>\<open>NUM_HOSTS\<close> to the value of \<^verbatim>\<open>_NUM_HOSTS\<close>,
  and the global \<^verbatim>\<open>_generateGidSQL\<close> to the statement of \<^verbatim>\<open>EdgeStoreShard._generateGidSQL\<close>.
\<close>

definition bound_env :: "string list \<Rightarrow> 'v env" where
  "bound_env hosts =
     \<lparr>DATABASE_HOSTS = hosts,
      EdgeStore_dict = [''_MAX_COLO_ID'' \<mapsto> 2 ^ 32 - 1, ''_NUM_HOSTS'' \<mapsto> int (length hosts),
                        ''NUM_HOSTS'' \<mapsto> int (length hosts)],
      module_globals = [''_generateGidSQL'' \<mapsto> PyStatement generateGidSQL]\<rparr>"

text \<open>
  A store named \<^verbatim>\<open>edgestore\<close> over empty databases, before any call; and the same store once
  its shard on host \<^verbatim>\<open>H1\<close> holds the example database and has seen an overwrite.
\<close>

definition example_store :: "string EdgeStore" where
  "example_store = EdgeStore_init (\<lambda>h. empty_database) ''edgestore''"

definition overwritten_store :: "string EdgeStore" where
  "overwritten_store =
     example_store
       \<lparr>shards := [(''H1'', ''edgestore'') \<mapsto>
                     \<lparr>db = example_database, lastAddWasOverwrite = True\<rparr>]\<rparr>"

section \<open>Properties\<close>

subsection \<open>Revisions\<close>

lemma incrementRevision_fst:
  "fst (incrementRevision edgetype gid1 d) = stored_revision d edgetype gid1 + 1"
  by (simp add: incrementRevision_def incrementRevisionSQL_def getLastInsertID_def
      stored_revision_def Let_def split: option.split prod.split)

lemma incrementRevision_meta:
  "t_edgemeta (snd (incrementRevision edgetype gid1 d)) (edgetype, gid1) =
     Some (case t_edgemeta d (edgetype, gid1) of
             None \<Rightarrow> (1, 0) | Some (revision, cnt) \<Rightarrow> (revision + 1, cnt))"
  by (simp add: incrementRevision_def incrementRevisionSQL_def Let_def
      split: option.split prod.split)

lemma incrementRevision_register:
  "getLastInsertID (snd (incrementRevision edgetype gid1 d)) =
     fst (incrementRevision edgetype gid1 d)"
  by (simp add: incrementRevision_def Let_def)

lemma incrementRevision_stored:
  "stored_revision (snd (incrementRevision edgetype gid1 d)) edgetype gid1 =
     stored_revision d edgetype gid1 + 1"
  by (simp add: stored_revision_def incrementRevision_meta split: option.split prod.split)

lemma successive_revisions_eq:
  "successive_revisions n edgetype gid1 d =
     map (\<lambda>i. stored_revision d edgetype gid1 + int i) [1..<Suc n]"
proof (induction n arbitrary: d)
  case 0
  show ?case by simp
next
  case (Suc n)
  obtain r d' where step: "incrementRevision edgetype gid1 d = (r, d')"
    by (cases "incrementRevision edgetype gid1 d")
  have r: "r = stored_revision d edgetype gid1 + 1"
    using incrementRevision_fst [of edgetype gid1 d] step by simp
  have d': "stored_revision d' edgetype gid1 = stored_revision d edgetype gid1 + 1"
    using incrementRevision_stored [of edgetype gid1 d] step by simp
  have "[1..<Suc (Suc n)] = 1 # map Suc [1..<Suc n]"
    by (simp add: map_Suc_upt upt_conv_Cons del: upt_Suc)
  then show ?case
    using Suc.IH [of d'] step r d' by (simp add: comp_def del: upt_Suc)
qed

lemma successive_revisions_increasing:
  "sorted_wrt (<) (successive_revisions n edgetype gid1 d)"
proof -
  have "sorted_wrt (\<lambda>i j. stored_revision d edgetype gid1 + int i
          < stored_revision d edgetype gid1 + int j) [1..<Suc n]"
    by (rule sorted_wrt_mono_rel [OF _ sorted_wrt_upt]) simp
  then show ?thesis
    by (simp only: successive_revisions_eq sorted_wrt_map)
qed

text \<open>
  C1. A call of \<^verbatim>\<open>_incrementRevision\<close> for \<^verbatim>\<open>(edgetype, gid1)\<close> returns the stored revision
  plus 1, and 1 when \<^verbatim>\<open>edgemeta\<close> has no row yet, in which case the row is created with
  revision 1 and count 0; the returned value is what the last-insert-id register holds.
  The values returned by calls made one after the other are therefore strictly
  increasing, each the previous one plus 1, and they are 1, 2, ..., n from a database
  without the row.
\<close>

theorem incrementRevision_strictly_increasing:
  "fst (incrementRevision edgetype gid1 d) = stored_revision d edgetype gid1 + 1
   \<and> t_edgemeta (snd (incrementRevision edgetype gid1 d)) (edgetype, gid1) =
       Some (case t_edgemeta d (edgetype, gid1) of
               None \<Rightarrow> (1, 0) | Some (revision, cnt) \<Rightarrow> (revision + 1, cnt))
   \<and> getLastInsertID (snd (incrementRevision edgetype gid1 d)) =
       fst (incrementRevision edgetype gid1 d)
   \<and> successive_revisions n edgetype gid1 d =
       map (\<lambda>i. stored_revision d edgetype gid1 + int i) [1..<Suc n]
   \<and> sorted_wrt (<) (successive_revisions n edgetype gid1 d)
   \<and> (t_edgemeta d (edgetype, gid1) = None \<longrightarrow>
        fst (incrementRevision edgetype gid1 d) = 1
        \<and> successive_revisions n edgetype gid1 d = map int [1..<Suc n])"
proof -
  have "t_edgemeta d (edgetype, gid1) = None \<Longrightarrow> stored_revision d edgetype gid1 = 0"
    by (simp add: stored_revision_def)
  then show ?thesis
    using incrementRevision_fst [of edgetype gid1 d] incrementRevision_meta [of edgetype gid1 d]
      incrementRevision_register [of edgetype gid1 d]
      successive_revisions_eq [of n edgetype gid1 d]
      successive_revisions_increasing [of n edgetype gid1 d]
    by (simp del: upt_Suc)
qed

theorem incrementRevision_strictly_increasing_witness:
  "t_edgemeta (empty_database :: string database) (7, 21474836481) = None
   \<and> fst (incrementRevision 7 21474836481 (empty_database :: string database)) = 1
   \<and> successive_revisions 3 7 21474836481 (empty_database :: string database) = [1, 2, 3]"
proof -
  have fresh: "t_edgemeta (empty_database :: string database) (7, 21474836481) = None"
    by (simp add: empty_database_def)
  have "fst (incrementRevision 7 21474836481 (empty_database :: string database)) = 1
        \<and> successive_revisions 3 7 21474836481 (empty_database :: string database) =
            map int [1..<Suc 3]"
    using fresh
      incrementRevision_strictly_increasing
        [of 7 21474836481 "empty_database :: string database" 3]
    by blast
  then show ?thesis
    using fresh by (simp add: upt_conv_Cons)
qed

subsection \<open>Evaluating the engine on concrete inputs\<close>

lemmas statement_defs =
  incrementRevision_def incrementRevisionSQL_def incrementCount_def incrementCountSQL_def
  addSQL_def addOverwriteSQL_def uniqueIndexSQL_def deleteIndexSQL_def addIndexSQL_def
  deleteSQL_def lastInsertIDSQL_def getAffectedRows_def getLastInsertID_def
  begin_transaction_def commit_def rollback_def

lemmas engine_defs =
  EdgeStoreShard_add_def EdgeStoreShard_delete_def transaction_def add_body_def
  delete_body_def EdgeStoreShard_init_def empty_database_def Let_def

lemma example_database_reached:
  "snd (EdgeStoreShard_add 7 21474836481 21474836482 1 ''x'' [(3, ''k'', True)] False
     (EdgeStoreShard_init (empty_database\<lparr>t_colo := [5 \<mapsto> 2]\<rparr>))) =
   EdgeStoreShard_init example_database"
  by (simp add: engine_defs statement_defs example_database_def)

lemma two_edges_database_reached:
  "snd (EdgeStoreShard_add 7 21474836481 21474836483 1 ''x'' [] False
     (snd (EdgeStoreShard_add 7 21474836481 21474836482 1 ''x'' [] False
        (EdgeStoreShard_init (empty_database\<lparr>t_colo := [5 \<mapsto> 3]\<rparr>))))) =
   EdgeStoreShard_init two_edges_database"
  by (simp add: engine_defs statement_defs two_edges_database_def)

lemma two_types_database_reached:
  "snd (EdgeStoreShard_add 8 21474836481 21474836483 1 ''e2'' [(3, ''k'', True)] False
     (snd (EdgeStoreShard_add 7 21474836481 21474836482 1 ''e1'' [] False
        (EdgeStoreShard_init (empty_database\<lparr>t_colo := [5 \<mapsto> 3]\<rparr>))))) =
   EdgeStoreShard_init two_types_database"
  by (simp add: engine_defs statement_defs two_types_database_def)

subsection \<open>Deleting an edge that is not there\<close>

lemma filter_absent:
  "\<forall>row \<in> set rows. edge_key row \<noteq> k \<Longrightarrow>
     filter (\<lambda>row. edge_key row = k) rows = [] \<and> filter (\<lambda>row. edge_key row \<noteq> k) rows = rows"
  by (induction rows) auto

lemma deleteSQL_absent:
  assumes "\<forall>row \<in> set (t_edgedata d). edge_key row \<noteq> (edgetype, gid1, gid2)"
  shows "deleteSQL edgetype gid1 gid2 d = d\<lparr>affected_rows := 0\<rparr>"
  using filter_absent [OF assms] by (simp add: deleteSQL_def)

lemma incrementRevision_tables:
  "t_edgedata (snd (incrementRevision edgetype gid1 d)) = t_edgedata d
   \<and> t_edgeindex (snd (incrementRevision edgetype gid1 d)) = t_edgeindex d
   \<and> t_colo (snd (incrementRevision edgetype gid1 d)) = t_colo d
   \<and> ongoing (snd (incrementRevision edgetype gid1 d)) = ongoing d"
  by (simp add: incrementRevision_def incrementRevisionSQL_def Let_def
      split: option.split prod.split)

lemma incrementRevision_count:
  "countSQL edgetype gid1 (snd (incrementRevision et g d)) =
     (if (et, g) = (edgetype, gid1) \<and> t_edgemeta d (et, g) = None then Some 0
      else countSQL edgetype gid1 d)"
  by (auto simp add: incrementRevision_def incrementRevisionSQL_def Let_def countSQL_def
      split: option.split prod.split)

lemma delete_body_absent:
  assumes "\<forall>row \<in> set (t_edgedata (db sh)). edge_key row \<noteq> (edgetype, gid1, gid2)"
  shows "delete_body edgetype gid1 gid2 indextypes sh =
           (Inr False,
            sh\<lparr>db := (snd (incrementRevision edgetype gid1 (db sh)))\<lparr>affected_rows := 0\<rparr>\<rparr>)"
proof -
  obtain r d1 where step: "incrementRevision edgetype gid1 (db sh) = (r, d1)"
    by (cases "incrementRevision edgetype gid1 (db sh)")
  have "t_edgedata d1 = t_edgedata (db sh)"
    using incrementRevision_tables [of edgetype gid1 "db sh"] step by simp
  then have "deleteSQL edgetype gid1 gid2 d1 = d1\<lparr>affected_rows := 0\<rparr>"
    using assms deleteSQL_absent [of d1 edgetype gid1 gid2] by simp
  then show ?thesis
    using step by (simp add: delete_body_def getAffectedRows_def Let_def)
qed

text \<open>
  C6. When \<^verbatim>\<open>edgedata\<close> has no row with the key \<^verbatim>\<open>(edgetype, gid1, gid2)\<close>, \<^verbatim>\<open>delete\<close> returns
  \<^verbatim>\<open>False\<close>, leaves the count of \<^verbatim>\<open>(edgetype, gid1)\<close> as it was, deletes no index row and no
  edge, and advances the stored revision of \<^verbatim>\<open>(edgetype, gid1)\<close> by 1.
\<close>

theorem delete_missing_edge:
  assumes "\<forall>row \<in> set (t_edgedata (db sh)). edge_key row \<noteq> (edgetype, gid1, gid2)"
  shows "fst (EdgeStoreShard_delete edgetype gid1 gid2 indextypes sh) = Inr False
    \<and> EdgeStoreShard_count edgetype gid1
        (snd (EdgeStoreShard_delete edgetype gid1 gid2 indextypes sh))
        = EdgeStoreShard_count edgetype gid1 sh
    \<and> t_edgeindex (db (snd (EdgeStoreShard_delete edgetype gid1 gid2 indextypes sh)))
        = t_edgeindex (db sh)
    \<and> t_edgedata (db (snd (EdgeStoreShard_delete edgetype gid1 gid2 indextypes sh)))
        = t_edgedata (db sh)
    \<and> stored_revision (db (snd (EdgeStoreShard_delete edgetype gid1 gid2 indextypes sh)))
        edgetype gid1 = stored_revision (db sh) edgetype gid1 + 1"
proof -
  let ?d1 = "snd (incrementRevision edgetype gid1 (begin_transaction (db sh)))"
  have body:
    "delete_body edgetype gid1 gid2 indextypes (sh\<lparr>db := begin_transaction (db sh)\<rparr>) =
       (Inr False, sh\<lparr>db := ?d1\<lparr>affected_rows := 0\<rparr>\<rparr>)"
    using assms
      delete_body_absent [of "sh\<lparr>db := begin_transaction (db sh)\<rparr>" edgetype gid1 gid2 indextypes]
    by (simp add: begin_transaction_def)
  then have res: "EdgeStoreShard_delete edgetype gid1 gid2 indextypes sh =
      (Inr False, sh\<lparr>db := commit (db sh) (?d1\<lparr>affected_rows := 0\<rparr>)\<rparr>)"
    by (simp add: EdgeStoreShard_delete_def transaction_def)
  have cnt: "countSQL edgetype gid1 ?d1 =
      (if t_edgemeta (db sh) (edgetype, gid1) = None then Some 0
       else countSQL edgetype gid1 (db sh))"
    using incrementRevision_count [of edgetype gid1 edgetype gid1 "begin_transaction (db sh)"]
    by (simp add: begin_transaction_def countSQL_def)
  have cnt0:
    "t_edgemeta (db sh) (edgetype, gid1) = None \<Longrightarrow> countSQL edgetype gid1 (db sh) = None"
    by (simp add: countSQL_def)
  have rev: "stored_revision ?d1 edgetype gid1 = stored_revision (db sh) edgetype gid1 + 1"
    using incrementRevision_stored [of edgetype gid1 "begin_transaction (db sh)"]
    by (simp add: begin_transaction_def stored_revision_def)
  show ?thesis
    using res cnt cnt0 rev incrementRevision_tables [of edgetype gid1 "begin_transaction (db sh)"]
    by (auto simp add: EdgeStoreShard_count_def commit_def countSQL_def stored_revision_def
        begin_transaction_def)
qed

theorem delete_missing_edge_witness:
  "fst (EdgeStoreShard_delete 7 21474836481 21474836483 [3]
          (EdgeStoreShard_init example_database)) = Inr False
   \<and> EdgeStoreShard_count 7 21474836481
       (snd (EdgeStoreShard_delete 7 21474836481 21474836483 [3]
          (EdgeStoreShard_init example_database))) = 1
   \<and> t_edgeindex (db (snd (EdgeStoreShard_delete 7 21474836481 21474836483 [3]
          (EdgeStoreShard_init example_database)))) = [(3, ''k'', 21474836481, 1)]
   \<and> stored_revision (db (snd (EdgeStoreShard_delete 7 21474836481 21474836483 [3]
          (EdgeStoreShard_init example_database)))) 7 21474836481 = 2"
proof -
  have absent:
    "\<forall>row \<in> set (t_edgedata (db (EdgeStoreShard_init example_database))).
       edge_key row \<noteq> (7, 21474836481, 21474836483)"
    by (simp add: EdgeStoreShard_init_def example_database_def)
  show ?thesis
    using delete_missing_edge [OF absent, of "[3]"]
    by (simp add: EdgeStoreShard_init_def example_database_def EdgeStoreShard_count_def
        countSQL_def stored_revision_def)
qed

subsection \<open>The loop over the indices\<close>

lemma add_indices_tables:
  "t_edgedata (snd (add_indices affected gid1 prev revision indices d)) = t_edgedata d
   \<and> t_edgemeta (snd (add_indices affected gid1 prev revision indices d)) = t_edgemeta d
   \<and> t_colo (snd (add_indices affected gid1 prev revision indices d)) = t_colo d
   \<and> ongoing (snd (add_indices affected gid1 prev revision indices d)) = ongoing d"
  by (induction affected gid1 prev revision indices d rule: add_indices.induct)
    (simp_all add: Let_def deleteIndexSQL_def addIndexSQL_def)

lemma add_indices_error:
  "fst (add_indices affected gid1 prev revision indices d) = Some e \<Longrightarrow>
     e = AssertionError ''edge violates index uniqueness'' \<and> (\<exists>i \<in> set indices. snd (snd i))"
  by (induction affected gid1 prev revision indices d rule: add_indices.induct)
    (simp_all add: Let_def split: if_splits)

lemma add_indices_no_unique:
  "\<forall>i \<in> set indices. \<not> snd (snd i) \<Longrightarrow>
     fst (add_indices affected gid1 prev revision indices d) = None"
  by (induction affected gid1 prev revision indices d rule: add_indices.induct)
    (simp_all add: Let_def)

subsection \<open>Overwriting an edge\<close>

lemma find_map_replace:
  "find (\<lambda>row. edge_key row = k) rows = Some old \<Longrightarrow> edge_key new = k \<Longrightarrow>
     find (\<lambda>row. edge_key row = k) (map (\<lambda>row. if edge_key row = k then new else row) rows)
       = Some new"
  by (induction rows) (auto split: if_splits)

lemma add_body_overwrite_existing:
  assumes old:
      "find (\<lambda>row. edge_key row = (edgetype, gid1, gid2)) (t_edgedata (db sh)) = Some old"
    and meta: "t_edgemeta (db sh) (edgetype, gid1) = Some (edge_revision old, cnt)"
  shows "add_body edgetype gid1 gid2 encoding dat indices True sh =
     (case add_indices 2 gid1 (edge_revision old) (edge_revision old + 1) indices
        ((db sh)\<lparr>t_edgemeta :=
                   (t_edgemeta (db sh))((edgetype, gid1) \<mapsto> (edge_revision old + 1, cnt)),
           t_edgedata := map (\<lambda>row. if edge_key row = (edgetype, gid1, gid2)
               then (edgetype, gid1, gid2, edge_revision old + 1, encoding, dat) else row)
               (t_edgedata (db sh)),
           last_insert_id := edge_revision old, affected_rows := 2\<rparr>) of
        (Some e, d4) \<Rightarrow> (Inl e, sh\<lparr>db := d4, EdgeStoreShard.lastAddWasOverwrite := True\<rparr>)
      | (None, d4) \<Rightarrow>
          (Inr (edgetype, gid1, gid2, edge_revision old + 1, encoding, dat),
           sh\<lparr>db := d4, EdgeStoreShard.lastAddWasOverwrite := True\<rparr>))"
proof -
  have neq: "old \<noteq> (edgetype, gid1, gid2, edge_revision old + 1, encoding, dat)"
    by (cases old) simp
  show ?thesis
    using old meta neq
    by (simp add: add_body_def incrementRevision_def incrementRevisionSQL_def
        addOverwriteSQL_def getAffectedRows_def getLastInsertID_def Let_def
        split: prod.split option.split)
qed

lemma overwrite_stash:
  assumes old:
      "find (\<lambda>row. edge_key row = (edgetype, gid1, gid2)) (t_edgedata (db sh)) = Some old"
    and meta: "t_edgemeta (db sh) (edgetype, gid1) = Some (edge_revision old, cnt)"
  shows "case addOverwriteSQL
              (edgetype, gid1, gid2, fst (incrementRevision edgetype gid1 (db sh)), encoding, dat)
              (snd (incrementRevision edgetype gid1 (db sh))) of
           Inl e \<Rightarrow> False
         | Inr d2 \<Rightarrow>
             getAffectedRows d2 = 2
             \<and> getLastInsertID d2 = fst (incrementRevision edgetype gid1 (db sh)) - 1"
proof -
  have neq: "old \<noteq> (edgetype, gid1, gid2, edge_revision old + 1, encoding, dat)"
    by (cases old) simp
  show ?thesis
    using old meta neq
    by (simp add: incrementRevision_def incrementRevisionSQL_def
        addOverwriteSQL_def getAffectedRows_def getLastInsertID_def Let_def)
qed

text \<open>
  Where the assertion of the update path holds: let an edge row with the key
  \<^verbatim>\<open>(edgetype, gid1, gid2)\<close> exist, its revision being the revision stored in \<^verbatim>\<open>edgemeta\<close> for
  \<^verbatim>\<open>(edgetype, gid1)\<close>. Then in \<^verbatim>\<open>add\<close> with \<^verbatim>\<open>overwrite=True\<close> the upsert reports 2 affected
  rows and leaves the new revision minus 1 in the register; the call can only fail in the
  uniqueness check of a unique-flagged index entry. When it returns, the edge carries the
  stored revision plus 1 and the new encoding and data, the count is unchanged and
  \<^verbatim>\<open>lastAddWasOverwrite\<close> is true.
\<close>

lemma add_overwrite_latest:
  assumes old:
      "find (\<lambda>row. edge_key row = (edgetype, gid1, gid2)) (t_edgedata (db sh)) = Some old"
    and meta: "t_edgemeta (db sh) (edgetype, gid1) = Some (edge_revision old, cnt)"
  shows "(case EdgeStoreShard_add edgetype gid1 gid2 encoding dat indices True sh of
            (Inl e, sh') \<Rightarrow>
              e = AssertionError ''edge violates index uniqueness''
              \<and> (\<exists>i \<in> set indices. snd (snd i))
          | (Inr edge, sh') \<Rightarrow>
              edge = (edgetype, gid1, gid2, edge_revision old + 1, encoding, dat)
              \<and> find (\<lambda>row. edge_key row = (edgetype, gid1, gid2)) (t_edgedata (db sh'))
                  = Some edge
              \<and> t_edgemeta (db sh') (edgetype, gid1) = Some (edge_revision old + 1, cnt)
              \<and> EdgeStoreShard.lastAddWasOverwrite sh')
     \<and> ((\<forall>i \<in> set indices. \<not> snd (snd i)) \<longrightarrow>
          (\<exists>edge. fst (EdgeStoreShard_add edgetype gid1 gid2 encoding dat indices True sh)
                    = Inr edge))
     \<and> (case addOverwriteSQL
               (edgetype, gid1, gid2, fst (incrementRevision edgetype gid1 (db sh)),
                encoding, dat)
               (snd (incrementRevision edgetype gid1 (db sh))) of
          Inl e \<Rightarrow> False
        | Inr d2 \<Rightarrow>
            getAffectedRows d2 = 2
            \<and> getLastInsertID d2 = fst (incrementRevision edgetype gid1 (db sh)) - 1)"
proof -
  define sh0 where "sh0 = sh\<lparr>db := begin_transaction (db sh)\<rparr>"
  define new where "new = (edgetype, gid1, gid2, edge_revision old + 1, encoding, dat)"
  define d2 where "d2 = (db sh0)\<lparr>t_edgemeta :=
                   (t_edgemeta (db sh0))((edgetype, gid1) \<mapsto> (edge_revision old + 1, cnt)),
           t_edgedata := map (\<lambda>row. if edge_key row = (edgetype, gid1, gid2)
               then new else row) (t_edgedata (db sh0)),
           last_insert_id := edge_revision old, affected_rows := 2\<rparr>"
  obtain err d4 where loop:
    "add_indices 2 gid1 (edge_revision old) (edge_revision old + 1) indices d2 = (err, d4)"
    by (cases "add_indices 2 gid1 (edge_revision old) (edge_revision old + 1) indices d2")
  have old0: "find (\<lambda>row. edge_key row = (edgetype, gid1, gid2)) (t_edgedata (db sh0))
      = Some old"
    using old by (simp add: sh0_def begin_transaction_def)
  have meta0: "t_edgemeta (db sh0) (edgetype, gid1) = Some (edge_revision old, cnt)"
    using meta by (simp add: sh0_def begin_transaction_def)
  have body: "add_body edgetype gid1 gid2 encoding dat indices True sh0 =
      (case err of
         Some e \<Rightarrow> (Inl e, sh0\<lparr>db := d4, EdgeStoreShard.lastAddWasOverwrite := True\<rparr>)
       | None \<Rightarrow> (Inr new, sh0\<lparr>db := d4, EdgeStoreShard.lastAddWasOverwrite := True\<rparr>))"
    unfolding add_body_overwrite_existing [OF old0 meta0, of encoding dat indices]
      loop [unfolded d2_def new_def] new_def
    by (simp split: option.split)
  have add: "EdgeStoreShard_add edgetype gid1 gid2 encoding dat indices True sh =
      (case err of
         Some e \<Rightarrow>
           (Inl e, sh\<lparr>db := rollback (db sh) d4, EdgeStoreShard.lastAddWasOverwrite := True\<rparr>)
       | None \<Rightarrow>
           (Inr new, sh\<lparr>db := commit (db sh) d4, EdgeStoreShard.lastAddWasOverwrite := True\<rparr>))"
    using body by (simp add: EdgeStoreShard_add_def transaction_def sh0_def split: option.split)
  have tables: "t_edgedata d4 = t_edgedata d2 \<and> t_edgemeta d4 = t_edgemeta d2"
    using add_indices_tables [of 2 gid1 "edge_revision old" "edge_revision old + 1" indices d2]
      loop by simp
  have "edge_key new = (edgetype, gid1, gid2)"
    by (simp add: new_def)
  then have found: "find (\<lambda>row. edge_key row = (edgetype, gid1, gid2)) (t_edgedata d2) = Some new"
    using find_map_replace [OF old0, of new] by (simp add: d2_def)
  have meta2: "t_edgemeta d2 (edgetype, gid1) = Some (edge_revision old + 1, cnt)"
    by (simp add: d2_def)
  have first: "case EdgeStoreShard_add edgetype gid1 gid2 encoding dat indices True sh of
            (Inl e, sh') \<Rightarrow>
              e = AssertionError ''edge violates index uniqueness''
              \<and> (\<exists>i \<in> set indices. snd (snd i))
          | (Inr edge, sh') \<Rightarrow>
              edge = (edgetype, gid1, gid2, edge_revision old + 1, encoding, dat)
              \<and> find (\<lambda>row. edge_key row = (edgetype, gid1, gid2)) (t_edgedata (db sh'))
                  = Some edge
              \<and> t_edgemeta (db sh') (edgetype, gid1) = Some (edge_revision old + 1, cnt)
              \<and> EdgeStoreShard.lastAddWasOverwrite sh'"
  proof (cases err)
    case None
    have "t_edgedata (commit (db sh) d4) = t_edgedata d2
        \<and> t_edgemeta (commit (db sh) d4) = t_edgemeta d2"
      using tables by (simp add: commit_def)
    then show ?thesis
      using None add found meta2 by (simp add: new_def)
  next
    case (Some e)
    have "fst (add_indices 2 gid1 (edge_revision old) (edge_revision old + 1) indices d2)
        = Some e"
      using loop Some by simp
    then have "e = AssertionError ''edge violates index uniqueness''
        \<and> (\<exists>i \<in> set indices. snd (snd i))"
      by (rule add_indices_error)
    then show ?thesis
      using Some add by simp
  qed
  have second: "(\<forall>i \<in> set indices. \<not> snd (snd i)) \<longrightarrow>
          (\<exists>edge. fst (EdgeStoreShard_add edgetype gid1 gid2 encoding dat indices True sh)
                    = Inr edge)"
  proof
    assume "\<forall>i \<in> set indices. \<not> snd (snd i)"
    then have "fst (add_indices 2 gid1 (edge_revision old) (edge_revision old + 1) indices d2)
        = None"
      by (rule add_indices_no_unique)
    then have "err = None"
      using loop by simp
    then have "fst (EdgeStoreShard_add edgetype gid1 gid2 encoding dat indices True sh)
        = Inr new"
      using add by simp
    then show "\<exists>edge. fst (EdgeStoreShard_add edgetype gid1 gid2 encoding dat indices True sh)
                    = Inr edge"
      by (rule exI)
  qed
  have third: "case addOverwriteSQL
               (edgetype, gid1, gid2, fst (incrementRevision edgetype gid1 (db sh)),
                encoding, dat)
               (snd (incrementRevision edgetype gid1 (db sh))) of
          Inl e \<Rightarrow> False
        | Inr d2 \<Rightarrow>
            getAffectedRows d2 = 2
            \<and> getLastInsertID d2 = fst (incrementRevision edgetype gid1 (db sh)) - 1"
    by (rule overwrite_stash [OF old meta])
  show ?thesis
    by (intro conjI first second third)
qed


lemma add_body_overwrite_older:
  assumes old:
      "find (\<lambda>row. edge_key row = (edgetype, gid1, gid2)) (t_edgedata (db sh)) = Some old"
    and meta: "t_edgemeta (db sh) (edgetype, gid1) = Some (revision, cnt)"
    and older: "edge_revision old < revision"
  shows "fst (add_body edgetype gid1 gid2 encoding dat indices True sh) =
     Inl (AssertionError ''data changed during update'')"
proof -
  have neq: "old \<noteq> (edgetype, gid1, gid2, revision + 1, encoding, dat)"
    using older by (cases old) auto
  show ?thesis
    using old meta neq older
    by (simp add: add_body_def incrementRevision_def incrementRevisionSQL_def
        addOverwriteSQL_def getAffectedRows_def getLastInsertID_def Let_def)
qed

text \<open>
  C2: the update path of \<^verbatim>\<open>add\<close> asserts \<^verbatim>\<open>prev_revision == revision - 1\<close> under the message
  \<^verbatim>\<open>data changed during update\<close>, where \<^verbatim>\<open>prev_revision\<close> is the revision the edge row had
  and \<^verbatim>\<open>revision\<close> the one just issued for its parent. For an existing edge whose revision is
  older than the one stored for \<^verbatim>\<open>(edgetype, gid1)\<close>, as after an \<^verbatim>\<open>add\<close> of another edge under
  the same parent, \<^verbatim>\<open>add\<close> with \<^verbatim>\<open>overwrite=True\<close> raises that assertion and the tables are
  rolled back: the edge is not overwritten, although nothing changed during the update.
\<close>

theorem add_overwrite_older_edge_fails:
  assumes old:
      "find (\<lambda>row. edge_key row = (edgetype, gid1, gid2)) (t_edgedata (db sh)) = Some old"
    and meta: "t_edgemeta (db sh) (edgetype, gid1) = Some (revision, cnt)"
    and older: "edge_revision old < revision"
  shows "fst (EdgeStoreShard_add edgetype gid1 gid2 encoding dat indices True sh) =
      Inl (AssertionError ''data changed during update'')
    \<and> t_edgedata (db (snd (EdgeStoreShard_add edgetype gid1 gid2 encoding dat indices True sh)))
        = t_edgedata (db sh)
    \<and> t_edgemeta (db (snd (EdgeStoreShard_add edgetype gid1 gid2 encoding dat indices True sh)))
        = t_edgemeta (db sh)
    \<and> t_edgeindex (db (snd (EdgeStoreShard_add edgetype gid1 gid2 encoding dat indices True sh)))
        = t_edgeindex (db sh)"
proof -
  define sh0 where "sh0 = sh\<lparr>db := begin_transaction (db sh)\<rparr>"
  have old0: "find (\<lambda>row. edge_key row = (edgetype, gid1, gid2)) (t_edgedata (db sh0))
      = Some old"
    using old by (simp add: sh0_def begin_transaction_def)
  have meta0: "t_edgemeta (db sh0) (edgetype, gid1) = Some (revision, cnt)"
    using meta by (simp add: sh0_def begin_transaction_def)
  obtain res sh' where body:
    "add_body edgetype gid1 gid2 encoding dat indices True sh0 = (res, sh')"
    by (cases "add_body edgetype gid1 gid2 encoding dat indices True sh0")
  have "res = Inl (AssertionError ''data changed during update'')"
    using add_body_overwrite_older [OF old0 meta0 older, of encoding dat indices] body by simp
  then show ?thesis
    using body by (simp add: EdgeStoreShard_add_def transaction_def sh0_def rollback_def)
qed

theorem add_overwrite_older_edge_fails_witness:
  "EdgeStoreShard_get 7 21474836481 21474836482 None (None :: (string \<times> string) option)
      (EdgeStoreShard_init two_edges_database) =
      Inr (Some (7, 21474836481, 21474836482, 1, 1, ''x''))
   \<and> stored_revision two_edges_database 7 21474836481 = 2
   \<and> fst (EdgeStoreShard_add 7 21474836481 21474836482 1 ''y'' [] True
          (EdgeStoreShard_init two_edges_database)) =
      Inl (AssertionError ''data changed during update'')
   \<and> t_edgedata (db (snd (EdgeStoreShard_add 7 21474836481 21474836482 1 ''y'' [] True
          (EdgeStoreShard_init two_edges_database)))) =
      [(7, 21474836481, 21474836482, 1, 1, ''x''), (7, 21474836481, 21474836483, 2, 1, ''x'')]"
proof -
  let ?sh = "EdgeStoreShard_init two_edges_database"
  have old: "find (\<lambda>row. edge_key row = (7, 21474836481, 21474836482)) (t_edgedata (db ?sh))
      = Some (7, 21474836481, 21474836482, 1, 1, ''x'')"
    by (simp add: EdgeStoreShard_init_def two_edges_database_def)
  have meta: "t_edgemeta (db ?sh) (7, 21474836481) = Some (2, 2)"
    by (simp add: EdgeStoreShard_init_def two_edges_database_def)
  have older: "edge_revision (7, 21474836481, 21474836482, 1, 1, ''x'') < (2 :: int)"
    by simp
  have got: "EdgeStoreShard_get 7 21474836481 21474836482 None
      (None :: (string \<times> string) option) ?sh =
      Inr (Some (7, 21474836481, 21474836482, 1, 1, ''x''))"
    by (simp add: EdgeStoreShard_get_def getSQL_def getOne_def EdgeStoreShard_init_def
        two_edges_database_def)
  have stored: "stored_revision two_edges_database 7 21474836481 = 2"
    by (simp add: stored_revision_def two_edges_database_def)
  have edges: "t_edgedata (db ?sh) =
      [(7, 21474836481, 21474836482, 1, 1, ''x''), (7, 21474836481, 21474836483, 2, 1, ''x'')]"
    by (simp add: EdgeStoreShard_init_def two_edges_database_def)
  show ?thesis
    using add_overwrite_older_edge_fails
        [OF old meta older, where encoding = 1 and dat = "''y''" and indices = "[]"]
      got stored edges
    by simp
qed

subsection \<open>Unique index entries\<close>

lemma uniqueIndexSQL_positive:
  "row \<in> set (t_edgeindex d) \<Longrightarrow> index_type row = indextype \<Longrightarrow>
     index_value row = indexvalue \<Longrightarrow> uniqueIndexSQL indextype indexvalue d \<noteq> 0"
  by (auto simp add: uniqueIndexSQL_def filter_empty_conv)

lemma deleteIndexSQL_keeps:
  "row \<in> set (t_edgeindex d) \<Longrightarrow> \<not> (index_gid1 row = gid1 \<and> index_revision row = prev) \<Longrightarrow>
     row \<in> set (t_edgeindex (deleteIndexSQL indextype gid1 prev d))"
  by (auto simp add: deleteIndexSQL_def)

lemma add_indices_check_fails:
  assumes "(indextype, indexvalue, True) \<in> set indices"
    and "row \<in> set (t_edgeindex d)"
    and "index_type row = indextype" and "index_value row = indexvalue"
    and "\<not> (affected = 2 \<and> index_gid1 row = gid1 \<and> index_revision row = prev)"
  shows "fst (add_indices affected gid1 prev revision indices d) \<noteq> None"
  using assms
proof (induction affected gid1 prev revision indices d rule: add_indices.induct)
  case (1 affected gid1 prev revision d)
  then show ?case by simp
next
  case (2 affected gid1 prev revision it iv unique indices d)
  define d1 where "d1 = (if affected = 2 then deleteIndexSQL it gid1 prev d else d)"
  have row1: "row \<in> set (t_edgeindex d1)"
    using "2.prems" deleteIndexSQL_keeps [of row d gid1 prev it] by (auto simp add: d1_def)
  show ?case
  proof (cases "unique \<and> uniqueIndexSQL it iv d1 \<noteq> 0")
    case True
    then show ?thesis
      by (simp add: d1_def [symmetric] Let_def)
  next
    case False
    have "(it, iv, unique) \<noteq> (indextype, indexvalue, True)"
      using False uniqueIndexSQL_positive [OF row1 "2.prems"(3) "2.prems"(4)] by auto
    then have mem: "(indextype, indexvalue, True) \<in> set indices"
      using "2.prems"(1) by auto
    have "row \<in> set (t_edgeindex (addIndexSQL (it, iv, gid1, revision) d1))"
      using row1 by (simp add: addIndexSQL_def)
    then have "fst (add_indices affected gid1 prev revision indices
        (addIndexSQL (it, iv, gid1, revision) d1)) \<noteq> None"
      using "2.IH" [OF d1_def False mem _ "2.prems"(3) "2.prems"(4) "2.prems"(5)] by simp
    then show ?thesis
      using False by (simp add: d1_def [symmetric] Let_def)
  qed
qed

lemma unique_pairs_hold_filter:
  "unique_pairs_hold U rows \<Longrightarrow> unique_pairs_hold U (filter P rows)"
proof -
  have "length (filter Q (filter P rows)) \<le> length (filter Q rows)" for Q :: "'a index_row \<Rightarrow> bool"
    by (induction rows) auto
  then show "unique_pairs_hold U rows \<Longrightarrow> unique_pairs_hold U (filter P rows)"
    unfolding unique_pairs_hold_def by (fastforce intro: order_trans)
qed

lemma unique_pairs_hold_insert:
  assumes "unique_pairs_hold U (t_edgeindex d)"
    and "(indextype, indexvalue) \<in> U \<longrightarrow> uniqueIndexSQL indextype indexvalue d = 0"
  shows "unique_pairs_hold U (t_edgeindex (addIndexSQL (indextype, indexvalue, gid1, revision) d))"
  using assms
  by (auto simp add: unique_pairs_hold_def addIndexSQL_def uniqueIndexSQL_def)

lemma add_indices_unique_pairs:
  assumes "unique_pairs_hold U (t_edgeindex d)" and "flags_agree U indices"
  shows "unique_pairs_hold U
           (t_edgeindex (snd (add_indices affected gid1 prev revision indices d)))"
  using assms
proof (induction affected gid1 prev revision indices d rule: add_indices.induct)
  case (1 affected gid1 prev revision d)
  then show ?case by simp
next
  case (2 affected gid1 prev revision it iv unique indices d)
  define d1 where "d1 = (if affected = 2 then deleteIndexSQL it gid1 prev d else d)"
  have inv1: "unique_pairs_hold U (t_edgeindex d1)"
    using "2.prems"(1) unique_pairs_hold_filter [of U "t_edgeindex d"]
    by (simp add: d1_def deleteIndexSQL_def)
  have flags: "flags_agree U indices" and flag: "(it, iv) \<in> U \<longrightarrow> unique"
    using "2.prems"(2) by (simp_all add: flags_agree_def)
  show ?case
  proof (cases "unique \<and> uniqueIndexSQL it iv d1 \<noteq> 0")
    case True
    then show ?thesis
      using inv1 by (simp add: d1_def [symmetric] Let_def)
  next
    case False
    then have "(it, iv) \<in> U \<longrightarrow> uniqueIndexSQL it iv d1 = 0"
      using flag by blast
    then have "unique_pairs_hold U (t_edgeindex (addIndexSQL (it, iv, gid1, revision) d1))"
      using inv1 by (rule unique_pairs_hold_insert [rotated])
    then have "unique_pairs_hold U (t_edgeindex (snd (add_indices affected gid1 prev revision
        indices (addIndexSQL (it, iv, gid1, revision) d1))))"
      using "2.IH" [OF d1_def False _ flags] by simp
    moreover have "add_indices affected gid1 prev revision ((it, iv, unique) # indices) d =
        add_indices affected gid1 prev revision indices (addIndexSQL (it, iv, gid1, revision) d1)"
      using False by (auto simp add: d1_def [symmetric] Let_def)
    ultimately show ?thesis
      by simp
  qed
qed


lemma find_Some_member:
  "find P xs = Some x \<Longrightarrow> x \<in> set xs \<and> P x"
  by (induction xs) (auto split: if_splits)

lemma add_statement_facts:
  assumes "(if overwrite then addOverwriteSQL edge d1 else addSQL edge d1) = Inr d2"
  shows "t_edgeindex d2 = t_edgeindex d1
    \<and> (affected_rows d2 = 2 \<longrightarrow>
         overwrite
         \<and> (\<exists>old \<in> set (t_edgedata d1).
              edge_key old = edge_key edge \<and> last_insert_id d2 = edge_revision old))"
proof (cases overwrite)
  case False
  then show ?thesis
    using assms by (auto simp add: addSQL_def split: if_splits)
next
  case True
  show ?thesis
  proof (cases "find (\<lambda>row. edge_key row = edge_key edge) (t_edgedata d1)")
    case None
    then show ?thesis
      using assms True by (auto simp add: addOverwriteSQL_def)
  next
    case (Some old)
    then have "old \<in> set (t_edgedata d1) \<and> edge_key old = edge_key edge"
      by (rule find_Some_member)
    then show ?thesis
      using assms True Some by (auto simp add: addOverwriteSQL_def)
  qed
qed

lemma add_body_shape:
  assumes "add_body edgetype gid1 gid2 encoding dat indices overwrite sh = (Inr edge, sh')"
  shows "\<exists>affected prev revision d3.
           t_edgeindex d3 = t_edgeindex (db sh)
           \<and> (affected = 2 \<longrightarrow>
                overwrite
                \<and> (\<exists>old \<in> set (t_edgedata (db sh)).
                     edge_key old = (edgetype, gid1, gid2) \<and> prev = edge_revision old))
           \<and> add_indices affected gid1 prev revision indices d3 = (None, db sh')"
proof -
  obtain r d1 where ir: "incrementRevision edgetype gid1 (db sh) = (r, d1)"
    by (cases "incrementRevision edgetype gid1 (db sh)")
  have d1: "t_edgeindex d1 = t_edgeindex (db sh) \<and> t_edgedata d1 = t_edgedata (db sh)"
    using incrementRevision_tables [of edgetype gid1 "db sh"] ir by simp
  define statement where "statement =
    (if overwrite then addOverwriteSQL (edgetype, gid1, gid2, r, encoding, dat) d1
     else addSQL (edgetype, gid1, gid2, r, encoding, dat) d1)"
  obtain d2 where d2: "statement = Inr d2"
    using assms ir
    by (cases statement) (simp_all add: add_body_def statement_def [symmetric])
  define affected where "affected = getAffectedRows d2"
  define prev where "prev = getLastInsertID d2"
  define d3 where "d3 = (if affected = 1 then incrementCount edgetype gid1 1 d2 else d2)"
  have facts: "t_edgeindex d2 = t_edgeindex d1
    \<and> (affected_rows d2 = 2 \<longrightarrow>
         overwrite
         \<and> (\<exists>old \<in> set (t_edgedata d1).
              edge_key old = edge_key (edgetype, gid1, gid2, r, encoding, dat)
              \<and> last_insert_id d2 = edge_revision old))"
    by (rule add_statement_facts) (use d2 in \<open>simp add: statement_def\<close>)
  have idx: "t_edgeindex d3 = t_edgeindex (db sh)"
    using facts d1
    by (simp add: d3_def incrementCount_def incrementCountSQL_def split: option.split)
  have prev2: "affected = 2 \<longrightarrow>
      overwrite
      \<and> (\<exists>old \<in> set (t_edgedata (db sh)).
           edge_key old = (edgetype, gid1, gid2) \<and> prev = edge_revision old)"
    using facts d1 by (simp add: affected_def prev_def getAffectedRows_def getLastInsertID_def)
  have loop: "add_indices affected gid1 prev r indices d3 = (None, db sh')"
    using assms ir d2
    by (auto simp add: add_body_def statement_def [symmetric] Let_def affected_def prev_def
        d3_def split: if_splits prod.splits option.splits)
  show ?thesis
    using idx prev2 loop by blast
qed

lemma transaction_failure:
  "fst (transaction body sh) = Inl e \<Longrightarrow>
     t_edgedata (db (snd (transaction body sh))) = t_edgedata (db sh)
     \<and> t_edgemeta (db (snd (transaction body sh))) = t_edgemeta (db sh)
     \<and> t_edgeindex (db (snd (transaction body sh))) = t_edgeindex (db sh)
     \<and> t_colo (db (snd (transaction body sh))) = t_colo (db sh)"
  by (simp add: transaction_def rollback_def split: prod.splits sum.splits)

lemma transaction_success:
  "fst (transaction body sh) = Inr v \<Longrightarrow>
     \<exists>sh'. body (sh\<lparr>db := begin_transaction (db sh)\<rparr>) = (Inr v, sh')
       \<and> t_edgeindex (db (snd (transaction body sh))) = t_edgeindex (db sh')"
  by (auto simp add: transaction_def commit_def split: prod.splits sum.splits)


lemma deleteIndexSQL_unique_pairs:
  "unique_pairs_hold U (t_edgeindex d) \<Longrightarrow>
     unique_pairs_hold U (t_edgeindex (deleteIndexSQL indextype gid1 revision d))"
  by (simp add: deleteIndexSQL_def unique_pairs_hold_filter)

lemma fold_deleteIndexSQL_unique_pairs:
  "unique_pairs_hold U (t_edgeindex d) \<Longrightarrow>
     unique_pairs_hold U
       (t_edgeindex (fold (\<lambda>indextype. deleteIndexSQL indextype gid1 revision) indextypes d))"
  by (induction indextypes arbitrary: d) (simp_all add: deleteIndexSQL_unique_pairs)

lemma delete_body_edgeindex:
  assumes "unique_pairs_hold U (t_edgeindex (db sh))"
  shows "unique_pairs_hold U
           (t_edgeindex (db (snd (delete_body edgetype gid1 gid2 indextypes sh))))"
proof -
  obtain r d1 where ir: "incrementRevision edgetype gid1 (db sh) = (r, d1)"
    by (cases "incrementRevision edgetype gid1 (db sh)")
  have d1: "t_edgeindex d1 = t_edgeindex (db sh)"
    using incrementRevision_tables [of edgetype gid1 "db sh"] ir by simp
  define d2 where "d2 = deleteSQL edgetype gid1 gid2 d1"
  define d3 where "d3 = incrementCount edgetype gid1 (- 1) d2"
  have "t_edgeindex d2 = t_edgeindex (db sh)"
    using d1 by (simp add: d2_def deleteSQL_def Let_def)
  then have d2: "unique_pairs_hold U (t_edgeindex d2)"
    using assms by simp
  have "t_edgeindex d3 = t_edgeindex d2"
    by (simp add: d3_def incrementCount_def incrementCountSQL_def split: option.split)
  then have d3: "unique_pairs_hold U (t_edgeindex d3)"
    using d2 by simp
  have "unique_pairs_hold U (t_edgeindex
      (fold (\<lambda>indextype. deleteIndexSQL indextype gid1 (lastInsertIDSQL d2)) indextypes d3))"
    using d3 by (rule fold_deleteIndexSQL_unique_pairs)
  then show ?thesis
    using ir d2 d3
    by (simp add: delete_body_def Let_def d2_def [symmetric] d3_def [symmetric])
qed

lemma delete_edgeindex:
  assumes "unique_pairs_hold U (t_edgeindex (db sh))"
  shows "unique_pairs_hold U
           (t_edgeindex (db (snd (EdgeStoreShard_delete edgetype gid1 gid2 indextypes sh))))"
proof -
  have "unique_pairs_hold U (t_edgeindex (db (sh\<lparr>db := begin_transaction (db sh)\<rparr>)))"
    using assms by (simp add: begin_transaction_def)
  then have "unique_pairs_hold U (t_edgeindex (db (snd
      (delete_body edgetype gid1 gid2 indextypes (sh\<lparr>db := begin_transaction (db sh)\<rparr>)))))"
    by (rule delete_body_edgeindex)
  then show ?thesis
    using assms
    by (cases "delete_body edgetype gid1 gid2 indextypes (sh\<lparr>db := begin_transaction (db sh)\<rparr>)")
      (auto simp add: EdgeStoreShard_delete_def transaction_def commit_def rollback_def
        split: sum.splits)
qed

lemma add_success_loop:
  assumes "fst (EdgeStoreShard_add edgetype gid1 gid2 encoding dat indices overwrite sh)
      = Inr edge"
  shows "\<exists>affected prev revision d3 d4.
           t_edgeindex d3 = t_edgeindex (db sh)
           \<and> (affected = 2 \<longrightarrow>
                overwrite
                \<and> (\<exists>old \<in> set (t_edgedata (db sh)).
                     edge_key old = (edgetype, gid1, gid2) \<and> prev = edge_revision old))
           \<and> add_indices affected gid1 prev revision indices d3 = (None, d4)
           \<and> t_edgeindex (db (snd (EdgeStoreShard_add edgetype gid1 gid2 encoding dat indices
                overwrite sh))) = t_edgeindex d4"
proof -
  obtain sh' where body:
    "add_body edgetype gid1 gid2 encoding dat indices overwrite
       (sh\<lparr>db := begin_transaction (db sh)\<rparr>) = (Inr edge, sh')"
    and idx: "t_edgeindex (db (snd (EdgeStoreShard_add edgetype gid1 gid2 encoding dat indices
                overwrite sh))) = t_edgeindex (db sh')"
    using transaction_success [of "add_body edgetype gid1 gid2 encoding dat indices overwrite"
        sh edge] assms
    by (auto simp add: EdgeStoreShard_add_def)
  show ?thesis
    using add_body_shape [OF body] idx by (simp add: begin_transaction_def) blast
qed

text \<open>
  C3, amended. Let \<^verbatim>\<open>indices\<close> contain the unique-flagged entry \<^verbatim>\<open>(indextype, indexvalue)\<close>
  and let \<^verbatim>\<open>edgeindex\<close> hold a row at that pair. Unless \<^verbatim>\<open>overwrite\<close> is set and the row carries
  \<^verbatim>\<open>gid1\<close> and the revision number of the existing edge \<^verbatim>\<open>(edgetype, gid1, gid2)\<close> (nothing
  is said of such rows, whichever edge they describe), \<^verbatim>\<open>add\<close> fails. A failed \<^verbatim>\<open>add\<close> leaves
  every table as it was, so no index row was inserted. Consequently, if no pair of a set
  \<open>U\<close> has more than one index row, and every entry of \<^verbatim>\<open>indices\<close> with a pair in \<open>U\<close> is
  flagged unique, the same holds after \<^verbatim>\<open>add\<close>; and it holds after \<^verbatim>\<open>delete\<close>.
\<close>

theorem unique_index_enforced:
  "((indextype, indexvalue, True) \<in> set indices
      \<and> (\<exists>row \<in> set (t_edgeindex (db sh)).
            index_type row = indextype \<and> index_value row = indexvalue
            \<and> \<not> (overwrite \<and> index_gid1 row = gid1
                   \<and> (\<exists>old \<in> set (t_edgedata (db sh)).
                         edge_key old = (edgetype, gid1, gid2)
                         \<and> index_revision row = edge_revision old)))
      \<longrightarrow> (\<exists>e. fst (EdgeStoreShard_add edgetype gid1 gid2 encoding dat indices overwrite sh)
                  = Inl e))
   \<and> ((\<exists>e. fst (EdgeStoreShard_add edgetype gid1 gid2 encoding dat indices overwrite sh) = Inl e)
      \<longrightarrow> t_edgeindex (db (snd (EdgeStoreShard_add edgetype gid1 gid2 encoding dat indices
              overwrite sh))) = t_edgeindex (db sh)
          \<and> t_edgedata (db (snd (EdgeStoreShard_add edgetype gid1 gid2 encoding dat indices
              overwrite sh))) = t_edgedata (db sh)
          \<and> t_edgemeta (db (snd (EdgeStoreShard_add edgetype gid1 gid2 encoding dat indices
              overwrite sh))) = t_edgemeta (db sh))
   \<and> (unique_pairs_hold U (t_edgeindex (db sh)) \<and> flags_agree U indices
      \<longrightarrow> unique_pairs_hold U
            (t_edgeindex (db (snd (EdgeStoreShard_add edgetype gid1 gid2 encoding dat indices
              overwrite sh)))))
   \<and> (unique_pairs_hold U (t_edgeindex (db sh))
      \<longrightarrow> unique_pairs_hold U
            (t_edgeindex (db (snd (EdgeStoreShard_delete edgetype' gid1' gid2' indextypes
              sh)))))"
proof (intro conjI impI)
  let ?add = "EdgeStoreShard_add edgetype gid1 gid2 encoding dat indices overwrite sh"
  {
    assume a: "(indextype, indexvalue, True) \<in> set indices
      \<and> (\<exists>row \<in> set (t_edgeindex (db sh)).
            index_type row = indextype \<and> index_value row = indexvalue
            \<and> \<not> (overwrite \<and> index_gid1 row = gid1
                   \<and> (\<exists>old \<in> set (t_edgedata (db sh)).
                         edge_key old = (edgetype, gid1, gid2)
                         \<and> index_revision row = edge_revision old)))"
    then obtain row where mem: "(indextype, indexvalue, True) \<in> set indices"
      and row: "row \<in> set (t_edgeindex (db sh))"
      and it: "index_type row = indextype" and iv: "index_value row = indexvalue"
      and keep: "\<not> (overwrite \<and> index_gid1 row = gid1
                   \<and> (\<exists>old \<in> set (t_edgedata (db sh)).
                         edge_key old = (edgetype, gid1, gid2)
                         \<and> index_revision row = edge_revision old))"
      by blast
    show "\<exists>e. fst ?add = Inl e"
    proof (cases "fst ?add")
      case (Inl e)
      then show ?thesis by simp
    next
      case (Inr edge)
      then obtain affected prev revision d3 d4 where
        d3: "t_edgeindex d3 = t_edgeindex (db sh)"
        and two: "affected = 2 \<longrightarrow>
                overwrite
                \<and> (\<exists>old \<in> set (t_edgedata (db sh)).
                     edge_key old = (edgetype, gid1, gid2) \<and> prev = edge_revision old)"
        and loop: "add_indices affected gid1 prev revision indices d3 = (None, d4)"
        using add_success_loop [of edgetype gid1 gid2 encoding dat indices overwrite sh edge]
        by blast
      have "\<not> (affected = 2 \<and> index_gid1 row = gid1 \<and> index_revision row = prev)"
        using two keep by blast
      then have "fst (add_indices affected gid1 prev revision indices d3) \<noteq> None"
        using add_indices_check_fails [OF mem _ it iv, of d3 affected gid1 prev revision] row d3
        by simp
      then show ?thesis
        using loop by simp
    qed
  }
  {
    assume "\<exists>e. fst ?add = Inl e"
    then obtain e where e: "fst ?add = Inl e" ..
    have unchanged: "t_edgedata (db (snd ?add)) = t_edgedata (db sh)
        \<and> t_edgemeta (db (snd ?add)) = t_edgemeta (db sh)
        \<and> t_edgeindex (db (snd ?add)) = t_edgeindex (db sh)"
      using transaction_failure [of "add_body edgetype gid1 gid2 encoding dat indices overwrite"
          sh e] e
      by (simp add: EdgeStoreShard_add_def)
    show "t_edgeindex (db (snd ?add)) = t_edgeindex (db sh)"
      using unchanged by simp
    show "t_edgedata (db (snd ?add)) = t_edgedata (db sh)"
      using unchanged by simp
    show "t_edgemeta (db (snd ?add)) = t_edgemeta (db sh)"
      using unchanged by simp
  }
  {
    assume a: "unique_pairs_hold U (t_edgeindex (db sh)) \<and> flags_agree U indices"
    show "unique_pairs_hold U (t_edgeindex (db (snd ?add)))"
    proof (cases "fst ?add")
      case (Inl e)
      then have "t_edgeindex (db (snd ?add)) = t_edgeindex (db sh)"
        using transaction_failure
          [of "add_body edgetype gid1 gid2 encoding dat indices overwrite" sh e]
        by (simp add: EdgeStoreShard_add_def)
      then show ?thesis
        using a by simp
    next
      case (Inr edge)
      then obtain affected prev revision d3 d4 where
        d3: "t_edgeindex d3 = t_edgeindex (db sh)"
        and loop: "add_indices affected gid1 prev revision indices d3 = (None, d4)"
        and d4: "t_edgeindex (db (snd ?add)) = t_edgeindex d4"
        using add_success_loop [of edgetype gid1 gid2 encoding dat indices overwrite sh edge]
        by blast
      have "unique_pairs_hold U
          (t_edgeindex (snd (add_indices affected gid1 prev revision indices d3)))"
        using a d3 add_indices_unique_pairs [of U d3 indices affected gid1 prev revision]
        by simp
      then show ?thesis
        using loop d4 by simp
    qed
  }
  {
    assume "unique_pairs_hold U (t_edgeindex (db sh))"
    then show "unique_pairs_hold U
        (t_edgeindex (db (snd (EdgeStoreShard_delete edgetype' gid1' gid2' indextypes sh))))"
      by (rule delete_edgeindex)
  }
qed

theorem unique_index_enforced_witness:
  "(3, ''k'', True) \<in> set [(3 :: int, ''k'', True)]
   \<and> t_edgeindex (db (EdgeStoreShard_init example_database)) = [(3, ''k'', 21474836481, 1)]
   \<and> fst (EdgeStoreShard_add 7 21474836481 21474836483 1 ''z'' [(3, ''k'', True)] False
          (EdgeStoreShard_init example_database)) =
      Inl (AssertionError ''edge violates index uniqueness'')
   \<and> t_edgeindex (db (snd (EdgeStoreShard_add 7 21474836481 21474836483 1 ''z''
          [(3, ''k'', True)] False (EdgeStoreShard_init example_database)))) =
      [(3, ''k'', 21474836481, 1)]
   \<and> unique_pairs_hold {(3, ''k'')} (t_edgeindex (db (EdgeStoreShard_init example_database)))
   \<and> flags_agree {(3, ''k'')} [(3, ''k'', True)]
   \<and> unique_pairs_hold {(3, ''k'')}
        (t_edgeindex (db (snd (EdgeStoreShard_add 7 21474836481 21474836483 1 ''z''
          [(3, ''k'', True)] False (EdgeStoreShard_init example_database)))))
   \<and> unique_pairs_hold {(3, ''k'')}
        (t_edgeindex (db (snd (EdgeStoreShard_delete 7 21474836481 21474836482 [3]
          (EdgeStoreShard_init example_database)))))"
proof -
  let ?sh = "EdgeStoreShard_init example_database"
  have idx: "t_edgeindex (db ?sh) = [(3, ''k'', 21474836481, 1)]"
    by (simp add: EdgeStoreShard_init_def example_database_def)
  have inv: "unique_pairs_hold {(3, ''k'')} (t_edgeindex (db ?sh))"
    by (simp add: idx unique_pairs_hold_def)
  have flags: "flags_agree {(3, ''k'')} [(3, ''k'', True)]"
    by (simp add: flags_agree_def)
  have row: "(3, ''k'', True) \<in> set [(3 :: int, ''k'', True)]
      \<and> (\<exists>row \<in> set (t_edgeindex (db ?sh)).
            index_type row = 3 \<and> index_value row = ''k''
            \<and> \<not> (False \<and> index_gid1 row = 21474836481
                   \<and> (\<exists>old \<in> set (t_edgedata (db ?sh)).
                         edge_key old = (7, 21474836481, 21474836483)
                         \<and> index_revision row = edge_revision old)))"
    by (simp add: idx)
  note enforced = unique_index_enforced
    [of 3 "''k''" "[(3, ''k'', True)]" ?sh False 21474836481 7 21474836483 1 "''z''"
      "{(3, ''k'')}" 7 21474836481 21474836482 "[3]"]
  have fails: "\<exists>e. fst (EdgeStoreShard_add 7 21474836481 21474836483 1 ''z''
      [(3, ''k'', True)] False ?sh) = Inl e"
    using enforced row by blast
  have unchanged: "t_edgeindex (db (snd (EdgeStoreShard_add 7 21474836481 21474836483 1 ''z''
      [(3, ''k'', True)] False ?sh))) = t_edgeindex (db ?sh)"
    using enforced fails by blast
  have after_add: "unique_pairs_hold {(3, ''k'')}
      (t_edgeindex (db (snd (EdgeStoreShard_add 7 21474836481 21474836483 1 ''z''
          [(3, ''k'', True)] False ?sh))))"
    using enforced inv flags by blast
  have after_delete: "unique_pairs_hold {(3, ''k'')}
      (t_edgeindex (db (snd (EdgeStoreShard_delete 7 21474836481 21474836482 [3] ?sh))))"
    using enforced inv by blast
  have error: "fst (EdgeStoreShard_add 7 21474836481 21474836483 1 ''z'' [(3, ''k'', True)]
      False ?sh) = Inl (AssertionError ''edge violates index uniqueness'')"
    by (simp add: engine_defs statement_defs example_database_def)
  show ?thesis
    using idx inv flags unchanged after_add after_delete error by simp
qed

text \<open>
  The claim as stated fails. An overwrite that keeps the edge's unique index value
  succeeds although a row exists at that pair, because the rows at \<^verbatim>\<open>(indextype, gid1,
  previous revision)\<close> are deleted before the check. The same happens when the row at the
  pair describes another edge of the parent that carries the same revision number: the
  overwrite of the edge of type 7 deletes the index row of the edge of type 8 and
  succeeds. And one \<^verbatim>\<open>add\<close> whose \<^verbatim>\<open>indices\<close> name a pair first with and then without the
  unique flag succeeds and leaves two rows at the pair.
\<close>

theorem unique_index_enforced_counterexample:
  "uniqueIndexSQL 3 ''k'' example_database = 1
   \<and> fst (EdgeStoreShard_add 7 21474836481 21474836482 1 ''y'' [(3, ''k'', True)] True
          (EdgeStoreShard_init example_database)) =
      Inr (7, 21474836481, 21474836482, 2, 1, ''y'')
   \<and> uniqueIndexSQL 3 ''k'' two_types_database = 1
   \<and> fst (EdgeStoreShard_add 7 21474836481 21474836482 1 ''e1b'' [(3, ''k'', True)] True
          (EdgeStoreShard_init two_types_database)) =
      Inr (7, 21474836481, 21474836482, 2, 1, ''e1b'')
   \<and> t_edgeindex (db (snd (EdgeStoreShard_add 7 21474836481 21474836482 1 ''e1b''
          [(3, ''k'', True)] True (EdgeStoreShard_init two_types_database)))) =
      [(3, ''k'', 21474836481, 2)]
   \<and> fst (EdgeStoreShard_add 7 21474836481 21474836483 1 ''z''
          [(3, ''q'', True), (3, ''q'', False)] False
          (EdgeStoreShard_init example_database)) =
      Inr (7, 21474836481, 21474836483, 2, 1, ''z'')
   \<and> t_edgeindex (db (snd (EdgeStoreShard_add 7 21474836481 21474836483 1 ''z''
          [(3, ''q'', True), (3, ''q'', False)] False
          (EdgeStoreShard_init example_database)))) =
      [(3, ''k'', 21474836481, 1), (3, ''q'', 21474836481, 2), (3, ''q'', 21474836481, 2)]"
  by (simp add: engine_defs statement_defs example_database_def two_types_database_def)

subsection \<open>Queries by parent and index\<close>

lemma cross_parent_database_reached:
  "snd (EdgeStoreShard_add 7 21474836482 21474836484 1 ''q'' [(3, ''k'', False)] False
     (snd (EdgeStoreShard_add 7 21474836481 21474836483 1 ''p'' [] False
        (EdgeStoreShard_init (empty_database\<lparr>t_colo := [5 \<mapsto> 4]\<rparr>))))) =
   EdgeStoreShard_init cross_parent_database"
  by (simp add: engine_defs statement_defs cross_parent_database_def)

lemma listIndexSQL_parent:
  "row \<in> set (listIndexSQL edgetype gid1 indextype indexstart indexend d) \<Longrightarrow>
     edge_edgetype row = edgetype \<and> edge_gid1 row = gid1 \<and> row \<in> set (t_edgedata d)"
  by (auto simp add: listIndexSQL_def)

text \<open>
  C5: the query with \<^verbatim>\<open>gid1\<close> and \<^verbatim>\<open>indextype\<close> joins index rows to edges by revision alone.
  Here parent \<^verbatim>\<open>(5 << 32) | 1\<close> has no index row at all, yet the query for its edges with
  index type 3 in \<^verbatim>\<open>["a", "z"]\<close> returns its edge, matched to the index row of the other
  parent; the search across parents, whose join compares \<^verbatim>\<open>gid1\<close> too, returns only the
  indexed edge.
\<close>

theorem query_by_parent_and_index_joins_other_parent:
  "filter (\<lambda>i. index_gid1 i = 21474836481) (t_edgeindex cross_parent_database) = []
   \<and> EdgeStoreShard_query 7 (Some 3) (Some (''a'', ''z'')) (Some 21474836481)
        (EdgeStoreShard_init cross_parent_database) =
      Inr [(7, 21474836481, 21474836483, 1, 1, ''p'')]
   \<and> EdgeStoreShard_query 7 (Some 3) (Some (''a'', ''z'')) None
        (EdgeStoreShard_init cross_parent_database) =
      Inr [(7, 21474836482, 21474836484, 1, 1, ''q'')]"
  by (simp add: EdgeStoreShard_query_def listIndexSQL_def searchIndexSQL_def
      EdgeStoreShard_init_def cross_parent_database_def)

subsection \<open>Routing\<close>

lemma getColoShard_source:
  "getColoShard (source_env hosts) colo st = (Inl (AttributeError ''NUM_HOSTS''), st)"
  by (simp add: getColoShard_def getattr_def source_env_def)

lemma getColoShard_bound:
  "hosts \<noteq> [] \<Longrightarrow>
     getColoShard (bound_env hosts) colo st =
       getHostShard (bound_env hosts) (colo mod int (length hosts)) st"
  by (simp add: getColoShard_def getattr_def bound_env_def)

text \<open>
  C4: \<^verbatim>\<open>_getColoShard\<close> reads \<^verbatim>\<open>self.NUM_HOSTS\<close>, while the class defines \<^verbatim>\<open>_NUM_HOSTS\<close>. In
  the environment of the source every operation of the store that routes by \<^verbatim>\<open>gid1\<close> raises
  \<^verbatim>\<open>AttributeError\<close> and reaches no shard.
\<close>

theorem routing_raises_AttributeError:
  "EdgeStore_add (source_env hosts) edgetype gid1 gid2 encoding dat indices overwrite st =
      (Inl (AttributeError ''NUM_HOSTS''), st)
   \<and> EdgeStore_delete (source_env hosts) edgetype gid1 gid2 indextypes st =
      (Inl (AttributeError ''NUM_HOSTS''), st)
   \<and> EdgeStore_get (source_env hosts) edgetype gid1 gid2 st =
      (Inl (AttributeError ''NUM_HOSTS''), st)
   \<and> EdgeStore_count (source_env hosts) edgetype gid1 st =
      (Inl (AttributeError ''NUM_HOSTS''), st)
   \<and> EdgeStore_query (source_env hosts) edgetype (Some 21474836481) None st =
      (Inl (AttributeError ''NUM_HOSTS''), st)"
  by (simp add: EdgeStore_add_def EdgeStore_delete_def EdgeStore_get_def EdgeStore_count_def
      EdgeStore_query_def getShard_def getColoShard_source truthy_def)

subsection \<open>Id generation\<close>

lemma generateGid_bound_twice:
  "t_colo (db sh) 5 = None \<Longrightarrow>
     fst (EdgeStoreShard_generateGid (bound_env hosts) 5 1 sh) = Inr 21474836481
     \<and> fst (EdgeStoreShard_generateGid (bound_env hosts) 5 1
              (snd (EdgeStoreShard_generateGid (bound_env hosts) 5 1 sh))) = Inr 21474836482"
  by (simp add: EdgeStoreShard_generateGid_def global_name_def bound_env_def generateGidSQL_def
      getLastInsertID_def Let_def)

lemma EdgeStore_colo_gid:
  "0 \<le> counter \<Longrightarrow> counter < 2 ^ 32 \<Longrightarrow> EdgeStore_colo (push_bit 32 colo + counter) = colo"
  by (simp add: EdgeStore_colo_def drop_bit_eq_div push_bit_eq_mult)

text \<open>
  C7: the shard's \<^verbatim>\<open>generateGid\<close> names \<^verbatim>\<open>_generateGidSQL\<close> without its class, so the call
  raises \<^verbatim>\<open>NameError\<close> and leaves the shard as it was; the store's \<^verbatim>\<open>generateGid(colo=5)\<close>
  raises \<^verbatim>\<open>AttributeError\<close> in \<^verbatim>\<open>_getColoShard\<close> before it reaches a shard. No gid is returned.
\<close>

theorem generateGid_raises:
  "EdgeStoreShard_generateGid (source_env hosts) colo start sh =
      (Inl (NameError ''_generateGidSQL''), sh)
   \<and> EdgeStore_generateGid (source_env hosts) None (Some 5) st =
      (Inl (AttributeError ''NUM_HOSTS''), st)"
  by (simp add: EdgeStoreShard_generateGid_def global_name_def EdgeStore_generateGid_def
      choose_colo_def truthy_def getColoShard_source)
    (simp add: source_env_def)

subsection \<open>Instances\<close>

text \<open>
  C8: \<^verbatim>\<open>getInstance\<close> never stores the store it constructs in \<^verbatim>\<open>_instances\<close>, so the
  dictionary stays as it was, and two calls with the same name return two objects.
\<close>

theorem getInstance_constructs_anew:
  "EdgeStore_instances (snd (getInstance conns name p)) = EdgeStore_instances p
   \<and> fst (getInstance conns name classes_init) = 0
   \<and> fst (getInstance conns name (snd (getInstance conns name classes_init))) = 1"
  by (simp add: getInstance_def classes_init_def split: option.split)

subsection \<open>The overwrite flag\<close>

lemma add_body_flag:
  assumes "EdgeStoreShard.lastAddWasOverwrite sh"
  shows "EdgeStoreShard.lastAddWasOverwrite
       (snd (add_body edgetype gid1 gid2 encoding dat indices overwrite sh))"
proof -
  obtain r d1 where ir: "incrementRevision edgetype gid1 (db sh) = (r, d1)"
    by (cases "incrementRevision edgetype gid1 (db sh)")
  define statement where "statement =
    (if overwrite then addOverwriteSQL (edgetype, gid1, gid2, r, encoding, dat) d1
     else addSQL (edgetype, gid1, gid2, r, encoding, dat) d1)"
  show ?thesis
  proof (cases statement)
    case (Inl e)
    then show ?thesis
      using assms ir by (simp add: add_body_def statement_def [symmetric])
  next
    case (Inr d2)
    obtain err d4 where loop:
      "add_indices (getAffectedRows d2) gid1 (getLastInsertID d2) r indices
         (if getAffectedRows d2 = 1 then incrementCount edgetype gid1 1 d2 else d2) = (err, d4)"
      by (cases "add_indices (getAffectedRows d2) gid1 (getLastInsertID d2) r indices
         (if getAffectedRows d2 = 1 then incrementCount edgetype gid1 1 d2 else d2)")
    show ?thesis
      using assms ir Inr loop
      by (cases err) (simp_all add: add_body_def statement_def [symmetric] Let_def)
  qed
qed

lemma transaction_flag:
  "EdgeStoreShard.lastAddWasOverwrite (snd (transaction body sh)) =
     EdgeStoreShard.lastAddWasOverwrite (snd (body (sh\<lparr>db := begin_transaction (db sh)\<rparr>)))"
  by (simp add: transaction_def split: prod.split sum.split)

lemma add_flag:
  "EdgeStoreShard.lastAddWasOverwrite sh \<Longrightarrow>
     EdgeStoreShard.lastAddWasOverwrite
       (snd (EdgeStoreShard_add edgetype gid1 gid2 encoding dat indices overwrite sh))"
  using add_body_flag [of "sh\<lparr>db := begin_transaction (db sh)\<rparr>"]
  by (simp add: EdgeStoreShard_add_def transaction_flag)

text \<open>
  C10. No \<^verbatim>\<open>add\<close> on a shard turns \<^verbatim>\<open>lastAddWasOverwrite\<close> from true to false, whether it
  inserts, updates or fails. When the store's \<^verbatim>\<open>add\<close> returns an edge, the store's flag is
  the flag of the shard it went to; so if that shard's flag was true before the call, the
  store reports true after it.
\<close>

theorem lastAddWasOverwrite_never_reset:
  "(EdgeStoreShard.lastAddWasOverwrite sh \<longrightarrow>
      EdgeStoreShard.lastAddWasOverwrite
        (snd (EdgeStoreShard_add edgetype gid1 gid2 encoding dat indices overwrite sh)))
   \<and> (getShard env gid1 st = (Inr (h, shard), st1)
        \<and> fst (EdgeStore_add env edgetype gid1 gid2 encoding dat indices overwrite st) = Inr edge
      \<longrightarrow> shards (snd (EdgeStore_add env edgetype gid1 gid2 encoding dat indices overwrite st)) h
            = Some (snd (EdgeStoreShard_add edgetype gid1 gid2 encoding dat indices overwrite
                          shard))
          \<and> EdgeStore.lastAddWasOverwrite
              (snd (EdgeStore_add env edgetype gid1 gid2 encoding dat indices overwrite st))
            = EdgeStoreShard.lastAddWasOverwrite
                (snd (EdgeStoreShard_add edgetype gid1 gid2 encoding dat indices overwrite shard))
          \<and> (EdgeStoreShard.lastAddWasOverwrite shard \<longrightarrow>
                EdgeStore.lastAddWasOverwrite
                  (snd (EdgeStore_add env edgetype gid1 gid2 encoding dat indices overwrite st))))"
proof (intro conjI impI)
  assume "EdgeStoreShard.lastAddWasOverwrite sh"
  then show "EdgeStoreShard.lastAddWasOverwrite
      (snd (EdgeStoreShard_add edgetype gid1 gid2 encoding dat indices overwrite sh))"
    by (rule add_flag)
next
  let ?add = "EdgeStoreShard_add edgetype gid1 gid2 encoding dat indices overwrite shard"
  let ?store = "EdgeStore_add env edgetype gid1 gid2 encoding dat indices overwrite st"
  assume a: "getShard env gid1 st = (Inr (h, shard), st1) \<and> fst ?store = Inr edge"
  then have res: "?store =
      (Inr edge, (put_shard h (snd ?add) st1)
         \<lparr>lastAddWasOverwrite := EdgeStoreShard.lastAddWasOverwrite (snd ?add)\<rparr>)"
    by (cases ?add; cases "fst ?add") (auto simp add: EdgeStore_add_def)
  show "shards (snd ?store) h = Some (snd ?add)"
    using res by (simp add: put_shard_def)
  show mirror: "EdgeStore.lastAddWasOverwrite (snd ?store)
      = EdgeStoreShard.lastAddWasOverwrite (snd ?add)"
    using res by simp
  assume "EdgeStoreShard.lastAddWasOverwrite shard"
  then have "EdgeStoreShard.lastAddWasOverwrite (snd ?add)"
    by (rule add_flag)
  then show "EdgeStore.lastAddWasOverwrite (snd ?store)"
    using mirror by simp
qed

theorem lastAddWasOverwrite_never_reset_witness:
  "EdgeStoreShard.lastAddWasOverwrite \<lparr>db = example_database, lastAddWasOverwrite = True\<rparr>
   \<and> fst (EdgeStoreShard_add 7 21474836481 21474836483 1 ''z'' [] False
          \<lparr>db = example_database, lastAddWasOverwrite = True\<rparr>) =
      Inr (7, 21474836481, 21474836483, 2, 1, ''z'')
   \<and> EdgeStoreShard.lastAddWasOverwrite
        (snd (EdgeStoreShard_add 7 21474836481 21474836483 1 ''z'' [] False
           \<lparr>db = example_database, lastAddWasOverwrite = True\<rparr>))
   \<and> \<not> EdgeStore.lastAddWasOverwrite overwritten_store
   \<and> fst (EdgeStore_add (bound_env [''H0'', ''H1'']) 7 21474836481 21474836483 1 ''z'' [] False
          overwritten_store) =
      Inr (7, 21474836481, 21474836483, 2, 1, ''z'')
   \<and> EdgeStore.lastAddWasOverwrite
        (snd (EdgeStore_add (bound_env [''H0'', ''H1'']) 7 21474836481 21474836483 1 ''z'' []
           False overwritten_store))"
proof -
  let ?shard = "\<lparr>db = example_database, lastAddWasOverwrite = True\<rparr>"
  let ?env = "bound_env [''H0'', ''H1''] :: string env"
  have flag: "EdgeStoreShard.lastAddWasOverwrite ?shard"
    by simp
  have inserted: "fst (EdgeStoreShard_add 7 21474836481 21474836483 1 ''z'' [] False ?shard) =
      Inr (7, 21474836481, 21474836483, 2, 1, ''z'')"
    by (simp add: engine_defs statement_defs example_database_def)
  have routed: "getShard ?env 21474836481 overwritten_store =
      (Inr ((''H1'', ''edgestore''), ?shard), overwritten_store)"
    by (simp add: getShard_def getColoShard_def getattr_def bound_env_def EdgeStore_colo_def
        getHostShard_def py_index_def overwritten_store_def example_store_def
        EdgeStore_init_def drop_bit_eq_div)
  have returned: "fst (EdgeStore_add ?env 7 21474836481 21474836483 1 ''z'' [] False
      overwritten_store) = Inr (7, 21474836481, 21474836483, 2, 1, ''z'')"
    using routed inserted
    by (cases "EdgeStoreShard_add 7 21474836481 21474836483 1 ''z'' [] False ?shard")
      (simp add: EdgeStore_add_def)
  note never_reset = lastAddWasOverwrite_never_reset
    [where sh = ?shard and edgetype = 7 and encoding = 1 and dat = "''z''" and indices = "[]"
      and overwrite = False and env = ?env and st = overwritten_store
      and h = "(''H1'', ''edgestore'')" and shard = ?shard and ?st1.0 = overwritten_store
      and edge = "(7, 21474836481, 21474836483, 2, 1, ''z'')",
      of 21474836481 21474836483]
  have before: "\<not> EdgeStore.lastAddWasOverwrite overwritten_store"
    by (simp add: overwritten_store_def example_store_def EdgeStore_init_def)
  show ?thesis
    using never_reset flag inserted routed returned before by blast
qed

subsection \<open>The colocation lock\<close>

lemma getHostShard_locked_colos:
  "locked_colos (snd (getHostShard env hostindex st)) = locked_colos st"
  by (simp add: getHostShard_def Let_def split: sum.split option.split)

lemma getColoShard_locked_colos:
  "locked_colos (snd (getColoShard env colo st)) = locked_colos st"
  by (simp add: getColoShard_def getHostShard_locked_colos split: sum.split)

lemma lock_nested:
  "colo \<in> locked_colos st \<Longrightarrow> EdgeStore_lock env colo body st = body None st"
  by (simp add: EdgeStore_lock_def)

lemma lock_body_cong:
  assumes free: "colo \<notin> locked_colos st"
    and same: "\<And>y s. colo \<in> locked_colos s \<Longrightarrow> body y s = body' y s"
  shows "EdgeStore_lock env colo body st = EdgeStore_lock env colo body' st"
proof -
  define st0 where "st0 = st\<lparr>locked_colos := insert colo (locked_colos st)\<rparr>"
  obtain res st1 where routed: "getColoShard env colo st0 = (res, st1)"
    by (cases "getColoShard env colo st0")
  have "locked_colos st1 = locked_colos st0"
    using getColoShard_locked_colos [of env colo st0] routed by simp
  then have marked: "colo \<in> locked_colos st1"
    by (simp add: st0_def)
  show ?thesis
  proof (cases res)
    case (Inl e)
    then show ?thesis
      using free routed by (simp add: EdgeStore_lock_def st0_def [symmetric])
  next
    case (Inr found)
    obtain h shard where found: "found = (h, shard)"
      by (cases found)
    obtain probe shard' where probe:
      "EdgeStoreShard_lock env colo (shard\<lparr>db := begin_transaction (db shard)\<rparr>)
         = (probe, shard')"
      by (cases "EdgeStoreShard_lock env colo (shard\<lparr>db := begin_transaction (db shard)\<rparr>)")
    have "colo \<in> locked_colos (put_shard h shard' st1)"
      using marked by (simp add: put_shard_def)
    then have "body y (put_shard h shard' st1) = body' y (put_shard h shard' st1)" for y
      by (rule same)
    then show ?thesis
      using free routed Inr found probe
      by (cases probe) (simp_all add: EdgeStore_lock_def st0_def [symmetric])
  qed
qed

lemma lock_unmarks:
  "colo \<notin> locked_colos st \<Longrightarrow> colo \<notin> locked_colos (snd (EdgeStore_lock env colo body st))"
  by (simp add: EdgeStore_lock_def split: prod.split)

text \<open>
  C9. When \<^verbatim>\<open>colo\<close> is in \<^verbatim>\<open>_locked_colos\<close>, \<^verbatim>\<open>lock(colo)\<close> does nothing but run its block, to
  which it yields nothing: no transaction is opened and no lock probe is run. The block of
  a first entry runs with \<^verbatim>\<open>colo\<close> marked, so a \<^verbatim>\<open>lock(colo)\<close> entered directly inside it is
  such a nested entry and amounts to its own block. However the first entry is left, with
  a result or with an exception, \<^verbatim>\<open>colo\<close> is not in \<^verbatim>\<open>_locked_colos\<close> afterwards.
\<close>

theorem lock_nested_is_noop:
  "(colo \<in> locked_colos st \<longrightarrow> EdgeStore_lock env colo body st = body None st)
   \<and> EdgeStore_lock env colo (\<lambda>y. EdgeStore_lock env colo inner) st =
       EdgeStore_lock env colo (\<lambda>y. inner None) st
   \<and> (colo \<notin> locked_colos st \<longrightarrow>
        colo \<notin> locked_colos (snd (EdgeStore_lock env colo body st)))"
proof (intro conjI impI)
  assume "colo \<in> locked_colos st"
  then show "EdgeStore_lock env colo body st = body None st"
    by (rule lock_nested)
next
  show "EdgeStore_lock env colo (\<lambda>y. EdgeStore_lock env colo inner) st =
      EdgeStore_lock env colo (\<lambda>y. inner None) st"
  proof (cases "colo \<in> locked_colos st")
    case True
    then show ?thesis
      by (simp add: lock_nested)
  next
    case False
    then show ?thesis
      by (rule lock_body_cong) (simp add: lock_nested)
  qed
next
  assume "colo \<notin> locked_colos st"
  then show "colo \<notin> locked_colos (snd (EdgeStore_lock env colo body st))"
    by (rule lock_unmarks)
qed

lemma lock_source:
  "colo \<notin> locked_colos st \<Longrightarrow>
     EdgeStore_lock (source_env hosts) colo body st = (Inl (AttributeError ''NUM_HOSTS''), st)"
  by (simp add: EdgeStore_lock_def getColoShard_source)

theorem lock_nested_is_noop_witness:
  "5 \<in> locked_colos (example_store\<lparr>locked_colos := {5}\<rparr>)
   \<and> EdgeStore_lock (bound_env [''H0'', ''H1'']) 5 (\<lambda>y s. (Inr y, s))
        (example_store\<lparr>locked_colos := {5}\<rparr>) =
      (Inr None, example_store\<lparr>locked_colos := {5}\<rparr>)
   \<and> EdgeStore_lock (source_env [''H0'', ''H1'']) 5 (\<lambda>y s. (Inr y, s))
        (example_store\<lparr>locked_colos := {5}\<rparr>) =
      (Inr None, example_store\<lparr>locked_colos := {5}\<rparr>)
   \<and> 5 \<notin> locked_colos example_store
   \<and> fst (EdgeStore_lock (bound_env [''H0'', ''H1'']) 5
            (\<lambda>y. EdgeStore_lock (bound_env [''H0'', ''H1'']) 5 (\<lambda>z s. (Inr (y, z), s)))
            example_store) =
      Inr (Some 21474836480, None)
   \<and> 5 \<notin> locked_colos
        (snd (EdgeStore_lock (bound_env [''H0'', ''H1'']) 5
            (\<lambda>y. EdgeStore_lock (bound_env [''H0'', ''H1'']) 5 (\<lambda>z s. (Inr (y, z), s)))
            example_store))"
proof -
  let ?env = "bound_env [''H0'', ''H1''] :: string env"
  let ?held = "example_store\<lparr>locked_colos := {5}\<rparr>"
  let ?inner = "\<lambda>y (z :: int option) (s :: string EdgeStore).
      (Inr (y, z) :: error + int option \<times> int option, s)"
  have held: "5 \<in> locked_colos ?held"
    by simp
  have free: "5 \<notin> locked_colos example_store"
    by (simp add: example_store_def EdgeStore_init_def)
  have nested: "EdgeStore_lock ?env 5 (\<lambda>y s. (Inr y, s)) ?held = (Inr None, ?held)"
    using lock_nested_is_noop [of 5 ?held ?env "\<lambda>y s. (Inr y, s)"] held by blast
  have nested_source: "EdgeStore_lock (source_env [''H0'', ''H1'']) 5 (\<lambda>y s. (Inr y, s)) ?held
      = (Inr None, ?held)"
    using lock_nested_is_noop
      [of 5 ?held "source_env [''H0'', ''H1''] :: string env" "\<lambda>y s. (Inr y, s)"] held
    by blast
  have unmarked: "5 \<notin> locked_colos
      (snd (EdgeStore_lock ?env 5 (\<lambda>y. EdgeStore_lock ?env 5 (?inner y)) example_store))"
    using lock_nested_is_noop
      [of 5 example_store ?env "\<lambda>y. EdgeStore_lock ?env 5 (?inner y)"] free
    by blast
  have yielded: "fst (EdgeStore_lock ?env 5 (\<lambda>y. EdgeStore_lock ?env 5 (?inner y))
      example_store) = Inr (Some 21474836480, None)"
    by (simp add: EdgeStore_lock_def getColoShard_def getattr_def bound_env_def
        getHostShard_def py_index_def example_store_def EdgeStore_init_def
        EdgeStoreShard_init_def EdgeStoreShard_lock_def hasOngoingTransaction_def
        begin_transaction_def empty_database_def EdgeStoreShard_generateGid_def
        global_name_def generateGidSQL_def getLastInsertID_def put_shard_def
        on_connection_def commit_def Let_def)
  show ?thesis
    using held free nested nested_source unmarked yielded by simp
qed

lemma lock_probe_once:
  "map_option (\<lambda>shard. (t_colo (db shard) 5, ongoing (db shard)))
     (shards (snd (EdgeStore_lock (bound_env [''H0'', ''H1'']) 5
        (\<lambda>y. EdgeStore_lock (bound_env [''H0'', ''H1'']) 5 (\<lambda>z s. (Inr (y, z), s)))
        example_store)) (''H1'', ''edgestore'')) = Some (Some 0, 0)"
  by (simp add: EdgeStore_lock_def getColoShard_def getattr_def bound_env_def
      getHostShard_def py_index_def example_store_def EdgeStore_init_def
      EdgeStoreShard_init_def EdgeStoreShard_lock_def hasOngoingTransaction_def
      begin_transaction_def empty_database_def EdgeStoreShard_generateGid_def
      global_name_def generateGidSQL_def getLastInsertID_def put_shard_def
      on_connection_def commit_def Let_def)

end
